theory Spec2Isabelle
  imports Main "HOL-Library.Word"
begin

section \<open>Data model of the fee bumper (src/wallet/feebumper.cpp)\<close>

text \<open>
  Monetary amounts (\<open>CAmount\<close>, an \<open>int64_t\<close>) are modelled as \<open>int\<close>: the engine only
  adds, subtracts and compares amounts inside the money range, where signed 64-bit
  arithmetic does not overflow (signed overflow has no defined behaviour in C++).
  Transaction ids are 256-bit words, sequence numbers 32-bit words, scripts byte lists.
\<close>

type_synonym CAmount = int
type_synonym uint256 = "256 word"
type_synonym CScript = "8 word list"

datatype Result = OK | INVALID_ADDRESS_OR_KEY | INVALID_PARAMETER | WALLET_ERROR | MISC_ERROR

text \<open>
  An \<open>assert\<close> of the source that fails ends the process: no \<open>Result\<close> is returned.
\<close>

datatype 'a outcome = AssertionFailure | Returns 'a

record COutPoint =
  op_hash :: uint256
  op_n :: "32 word"

record CTxIn =
  prevout :: COutPoint
  scriptSig :: CScript
  scriptWitness :: "CScript list"
  nSequence :: "32 word"

text \<open>
  \<open>CTxOut\<close> is used for the entries of \<open>vout\<close>, for coins, and for the standard outputs
  held in \<open>vpout\<close> (the total bump casts its change output to \<open>CTxOutStandard\<close>, an amount
  and a script).
\<close>

record CTxOut =
  nValue :: CAmount
  scriptPubKey :: CScript

record CMutableTransaction =
  m_vin :: "CTxIn list"
  m_vout :: "CTxOut list"
  m_vpout :: "CTxOut list"

record CTransaction =
  vin :: "CTxIn list"
  vout :: "CTxOut list"
  vpout :: "CTxOut list"
  GetHash :: uint256

definition CMutableTransaction_of :: "CTransaction \<Rightarrow> CMutableTransaction" where
  "CMutableTransaction_of t = \<lparr>m_vin = vin t, m_vout = vout t, m_vpout = vpout t\<rparr>"

record CWalletTx =
  tx :: CTransaction
  mapValue :: "string \<rightharpoonup> string"
  vOrderForm :: "(string \<times> string) list"

text \<open>The second wallet-record representation of a Particl wallet (\<open>mapRecords\<close>).\<close>

record CTransactionRecord =
  rtx_block_height :: int

text \<open>
  Modelled from the spec: \<open>CFeeRate\<close> (policy/feerate.h is not among the sources) is
  "a monetary-amount-per-size value type with addition, comparison, and fee computation
  for a given virtual size". It holds one amount per 1000 units of virtual size, read by
  \<open>GetFeePerK\<close>; addition and comparison act on that amount. The constructor from a fee
  and a size, and \<open>GetFee\<close>, are taken as parameters (record \<open>Lib\<close> below).
\<close>

record CFeeRate =
  GetFeePerK :: CAmount

definition CFeeRate_of :: "CAmount \<Rightarrow> CFeeRate" where
  "CFeeRate_of k = \<lparr>GetFeePerK = k\<rparr>"

definition feerate_add :: "CFeeRate \<Rightarrow> CFeeRate \<Rightarrow> CFeeRate" where
  "feerate_add a b = \<lparr>GetFeePerK = GetFeePerK a + GetFeePerK b\<rparr>"

definition feerate_less :: "CFeeRate \<Rightarrow> CFeeRate \<Rightarrow> bool" where
  "feerate_less a b = (GetFeePerK a < GetFeePerK b)"

text \<open>\<open>std::max(a, b)\<close> is \<open>(a < b) ? b : a\<close>.\<close>

definition feerate_max :: "CFeeRate \<Rightarrow> CFeeRate \<Rightarrow> CFeeRate" where
  "feerate_max a b = (if feerate_less a b then b else a)"

datatype CTxDestination = CNoDestination | KnownDestination CScript

datatype isminefilter = ISMINE_WATCH_ONLY | ISMINE_SPENDABLE

text \<open>
  Modelled from the spec: \<open>CCoinControl\<close> (wallet/coincontrol.h is not among the sources)
  holds "explicitly selected inputs", "externally-selected inputs with caller-supplied
  signing weight override, an optional explicit fee rate, ... a preferred change
  destination, a minimum-confirmation-depth floor for newly sourced inputs, and a
  replaceability-signal flag".
\<close>

record CCoinControl =
  setSelected :: "COutPoint set"
  m_external_txouts :: "COutPoint \<rightharpoonup> CTxOut"
  m_input_weights :: "COutPoint \<rightharpoonup> int"
  m_feerate :: "CFeeRate option"
  destChange :: CTxDestination
  m_allow_other_inputs :: bool
  m_min_depth :: int
  m_signal_bip125_rbf :: "bool option"

definition Select :: "CCoinControl \<Rightarrow> COutPoint \<Rightarrow> CCoinControl" where
  "Select cc outp = cc\<lparr>setSelected := insert outp (setSelected cc)\<rparr>"

definition SelectExternal :: "CCoinControl \<Rightarrow> COutPoint \<Rightarrow> CTxOut \<Rightarrow> CCoinControl" where
  "SelectExternal cc outp txout =
     cc\<lparr>setSelected := insert outp (setSelected cc),
        m_external_txouts :=
          (case m_external_txouts cc outp of
             None \<Rightarrow> (m_external_txouts cc)(outp \<mapsto> txout)
           | Some _ \<Rightarrow> m_external_txouts cc)\<rparr>"

definition IsExternalSelected :: "CCoinControl \<Rightarrow> COutPoint \<Rightarrow> bool" where
  "IsExternalSelected cc outp = (m_external_txouts cc outp \<noteq> None)"

definition SetInputWeight :: "CCoinControl \<Rightarrow> COutPoint \<Rightarrow> int \<Rightarrow> CCoinControl" where
  "SetInputWeight cc outp weight = cc\<lparr>m_input_weights := (m_input_weights cc)(outp \<mapsto> weight)\<rparr>"

record CRecipient =
  r_scriptPubKey :: CScript
  nAmount :: CAmount
  fSubtractFeeFromAmount :: bool

subsection \<open>External collaborators\<close>

text \<open>
  The chain interface (interfaces/chain.h): consumed read-only views. \<open>findCoins\<close> gives
  the coin of each requested outpoint; \<open>None\<close> stands for a coin whose output is null
  (spent or unknown).
\<close>

record Chain =
  hasDescendantsInMempool :: "uint256 \<Rightarrow> bool"
  mempoolMinFee :: CFeeRate
  relayIncrementalFee :: CFeeRate
  findCoins :: "COutPoint \<rightharpoonup> CTxOut"

text \<open>
  Library functions and constants the engine calls and that are defined outside the
  sources; they are parameters of the model.
\<close>

record Lib =
  fParticlMode :: bool
  SignalsOptInRBF :: "CTransaction \<Rightarrow> bool"
  GetVirtualTransactionSize :: "CTransaction \<Rightarrow> int"
  GetTransactionInputWeight :: "CTxIn \<Rightarrow> int"
  GetWeightDiffToMax :: "CTransaction \<Rightarrow> nat \<Rightarrow> CTxOut \<Rightarrow> int"
  CFeeRate_paid :: "CAmount \<Rightarrow> int \<Rightarrow> CFeeRate"
  GetFee :: "CFeeRate \<Rightarrow> int \<Rightarrow> CAmount"
  WALLET_INCREMENTAL_RELAY_FEE :: CAmount
  GetValueOut :: "CTransaction \<Rightarrow> CAmount"
  GetDustThreshold :: "CTxOut \<Rightarrow> CFeeRate \<Rightarrow> CAmount"
  ExtractDestination :: "CScript \<Rightarrow> CTxDestination"
  ToString :: "uint256 \<Rightarrow> string"
  FormatMoney :: "CAmount \<Rightarrow> string"
  FormatUInt :: "32 word \<Rightarrow> string"
  MakeTransactionRef :: "CMutableTransaction \<Rightarrow> CTransaction"

text \<open>
  The wallet: its transaction maps and flags, and the wallet services the engine calls
  (wallet.h, hdwallet.h, receive.h, spend.h, fees.h are not among the sources).
  \<open>IsParticlWallet\<close> says whether the wallet object is a \<open>CHDWallet\<close>; \<open>mapRecords\<close>
  is the record map of such a wallet. \<open>InputIsMine w txin f\<close> says whether the ownership
  of the previous output of \<open>txin\<close> meets the filter \<open>f\<close>; \<open>IsMine w outp\<close> whether the
  wallet owns the outpoint at all.
\<close>

record CWallet =
  chain :: Chain
  mapWallet :: "uint256 \<rightharpoonup> CWalletTx"
  IsParticlWallet :: bool
  mapRecords :: "uint256 \<rightharpoonup> CTransactionRecord"
  HasWalletSpend :: "CTransaction \<Rightarrow> bool"
  HasWalletSpend_rec :: "uint256 \<Rightarrow> CTransactionRecord \<Rightarrow> bool"
  GetTxDepthInMainChain :: "CWalletTx \<Rightarrow> int"
  GetDepthInMainChain_rec :: "CTransactionRecord \<Rightarrow> int"
  GetLegacyScriptPubKeyMan :: bool
  WALLET_FLAG_DISABLE_PRIVATE_KEYS :: bool
  InputIsMine :: "CTxIn \<Rightarrow> isminefilter \<Rightarrow> bool"
  IsMine :: "COutPoint \<Rightarrow> bool"
  IsChange :: "CTxOut \<Rightarrow> bool"
  OutputIsChange :: "CTxOut \<Rightarrow> bool"
  m_default_max_tx_fee :: CAmount
  m_signal_rbf :: bool
  CalculateMaximumSignedTxSize :: "CTransaction \<Rightarrow> int"
  CalculateMaximumSignedTxSize_cc :: "CTransaction \<Rightarrow> CCoinControl \<Rightarrow> int"
  CachedTxGetDebit :: "CWalletTx \<Rightarrow> isminefilter \<Rightarrow> CAmount"
  GetMinimumFee :: "int \<Rightarrow> CCoinControl \<Rightarrow> CAmount"
  GetMinimumFeeRate :: "CCoinControl \<Rightarrow> CFeeRate"
  GetRequiredFee :: "int \<Rightarrow> CAmount"
  GetDiscardRate :: CFeeRate
  CreateTransaction ::
    "CRecipient list \<Rightarrow> int \<Rightarrow> CCoinControl \<Rightarrow> bool \<Rightarrow> string + (CTransaction \<times> CAmount)"

text \<open>
  Modelled from the spec: \<open>AllInputsMine\<close> (wallet/receive.cpp is not among the sources)
  holds when "every input's previous output is recognized as owned" under the filter.
\<close>

definition AllInputsMine :: "CWallet \<Rightarrow> CTransaction \<Rightarrow> isminefilter \<Rightarrow> bool" where
  "AllInputsMine w t f = list_all (\<lambda>txin. InputIsMine w txin f) (vin t)"

section \<open>The precondition checker\<close>

text \<open>
  \<open>PreconditionChecks(wallet, wtx, require_mine, errors)\<close>: the result and the
  diagnostics list after the call.
\<close>

definition PreconditionChecks ::
  "Lib \<Rightarrow> CWallet \<Rightarrow> CWalletTx \<Rightarrow> bool \<Rightarrow> string list \<Rightarrow> Result \<times> string list" where
  "PreconditionChecks L w wtx require_mine errors =
    (if HasWalletSpend w (tx wtx) then
       (INVALID_PARAMETER, errors @ [''Transaction has descendants in the wallet''])
     else if hasDescendantsInMempool (chain w) (GetHash (tx wtx)) then
       (INVALID_PARAMETER, errors @ [''Transaction has descendants in the mempool''])
     else if GetTxDepthInMainChain w wtx \<noteq> 0 then
       (WALLET_ERROR,
        errors @ [''Transaction has been mined, or is conflicted with a mined transaction''])
     else if \<not> SignalsOptInRBF L (tx wtx) then
       (WALLET_ERROR, errors @ [''Transaction is not BIP 125 replaceable''])
     else
       (case mapValue wtx ''replaced_by_txid'' of
          Some by_txid \<Rightarrow>
            (WALLET_ERROR,
             errors @ [''Cannot bump transaction '' @ ToString L (GetHash (tx wtx)) @
                       '' which was already bumped by transaction '' @ by_txid])
        | None \<Rightarrow>
            (if require_mine then
               (let filter = (if GetLegacyScriptPubKeyMan w \<and> WALLET_FLAG_DISABLE_PRIVATE_KEYS w
                              then ISMINE_WATCH_ONLY else ISMINE_SPENDABLE)
                in if \<not> AllInputsMine w (tx wtx) filter then
                     (WALLET_ERROR,
                      errors @ [''Transaction contains inputs that don't belong to this wallet''])
                   else (OK, errors))
             else (OK, errors))))"

text \<open>The checker for a \<open>mapRecords\<close> entry: it never returns \<open>OK\<close>.\<close>

definition PreconditionChecks_rec ::
  "CWallet \<Rightarrow> uint256 \<Rightarrow> CTransactionRecord \<Rightarrow> string list \<Rightarrow> Result \<times> string list" where
  "PreconditionChecks_rec w h rtx errors =
    (if HasWalletSpend_rec w h rtx then
       (INVALID_PARAMETER, errors @ [''Transaction has descendants in the wallet''])
     else if hasDescendantsInMempool (chain w) h then
       (INVALID_PARAMETER, errors @ [''Transaction has descendants in the mempool''])
     else if GetDepthInMainChain_rec w rtx \<noteq> 0 then
       (WALLET_ERROR,
        errors @ [''Transaction has been mined, or is conflicted with a mined transaction''])
     else (WALLET_ERROR, errors @ [''TODO: mapRecord txn'']))"

section \<open>The fee-rate policy engine\<close>

text \<open>\<open>CheckFeeRate\<close>: validation of a fee rate supplied by the caller.\<close>

definition CheckFeeRate ::
  "Lib \<Rightarrow> CWallet \<Rightarrow> CWalletTx \<Rightarrow> CFeeRate \<Rightarrow> int \<Rightarrow> CAmount \<Rightarrow> string list
     \<Rightarrow> Result \<times> string list" where
  "CheckFeeRate L w wtx newFeerate maxTxSize old_fee errors =
    (let minMempoolFeeRate = mempoolMinFee (chain w) in
     if GetFeePerK newFeerate < GetFeePerK minMempoolFeeRate then
       (WALLET_ERROR,
        errors @ [''New fee rate ('' @ FormatMoney L (GetFeePerK newFeerate) @
                  '') is lower than the minimum fee rate ('' @
                  FormatMoney L (GetFeePerK minMempoolFeeRate) @
                  '') to get into the mempool -- ''])
     else
       (let new_total_fee = GetFee L newFeerate maxTxSize;
            incrementalRelayFee =
              feerate_max (relayIncrementalFee (chain w))
                          (CFeeRate_of (WALLET_INCREMENTAL_RELAY_FEE L));
            txSize = GetVirtualTransactionSize L (tx wtx);
            nOldFeeRate = CFeeRate_paid L old_fee txSize;
            minTotalFee = GetFee L nOldFeeRate maxTxSize + GetFee L incrementalRelayFee maxTxSize
        in if new_total_fee < minTotalFee then
             (INVALID_PARAMETER,
              errors @ [''Insufficient total fee '' @ FormatMoney L new_total_fee @
                        '', must be at least '' @ FormatMoney L minTotalFee @
                        '' (oldFee '' @ FormatMoney L (GetFee L nOldFeeRate maxTxSize) @
                        '' + incrementalFee '' @
                        FormatMoney L (GetFee L incrementalRelayFee maxTxSize) @ '')''])
           else
             (let requiredFee = GetRequiredFee w maxTxSize in
              if new_total_fee < requiredFee then
                (INVALID_PARAMETER,
                 errors @ [''Insufficient total fee (cannot be less than required fee '' @
                           FormatMoney L requiredFee @ '')''])
              else
                (let max_tx_fee = m_default_max_tx_fee w in
                 if new_total_fee > max_tx_fee then
                   (WALLET_ERROR,
                    errors @ [''Specified or calculated fee '' @ FormatMoney L new_total_fee @
                              '' is too high (cannot be higher than -maxtxfee '' @
                              FormatMoney L max_tx_fee @ '')''])
                 else (OK, errors)))))"

text \<open>\<open>EstimateFeeRate\<close>: the fee rate of the replacement when the caller gives none.\<close>

definition EstimateFeeRate ::
  "Lib \<Rightarrow> CWallet \<Rightarrow> CWalletTx \<Rightarrow> CAmount \<Rightarrow> CCoinControl \<Rightarrow> CFeeRate" where
  "EstimateFeeRate L w wtx old_fee coin_control =
    (let txSize = GetVirtualTransactionSize L (tx wtx);
         feerate0 = CFeeRate_paid L old_fee txSize;
         feerate1 = feerate_add feerate0 (CFeeRate_of 1);
         node_incremental_relay_fee = relayIncrementalFee (chain w);
         wallet_incremental_relay_fee = CFeeRate_of (WALLET_INCREMENTAL_RELAY_FEE L);
         feerate2 = feerate_add feerate1
                      (feerate_max node_incremental_relay_fee wallet_incremental_relay_fee);
         min_feerate = GetMinimumFeeRate w coin_control
     in feerate_max feerate2 min_feerate)"

section \<open>The produced interface\<close>

text \<open>
  \<open>GetParticlWallet\<close> gives the wallet as a \<open>CHDWallet\<close>, or null when it is not one;
  \<open>GetWalletTx\<close> is the lookup in \<open>mapWallet\<close>.
\<close>

definition TransactionCanBeBumped :: "Lib \<Rightarrow> CWallet \<Rightarrow> uint256 \<Rightarrow> bool" where
  "TransactionCanBeBumped L w txid =
    (if fParticlMode L then
       (if \<not> IsParticlWallet w then False
        else
          (case mapWallet w txid of
             Some wtx \<Rightarrow> fst (PreconditionChecks L w wtx True []) = OK
           | None \<Rightarrow>
               (case mapRecords w txid of
                  Some rtx \<Rightarrow> fst (PreconditionChecks_rec w txid rtx []) = OK
                | None \<Rightarrow> False)))
     else
       (case mapWallet w txid of
          None \<Rightarrow> False
        | Some wtx \<Rightarrow> fst (PreconditionChecks L w wtx True []) = OK))"

text \<open>
  The reference parameters \<open>errors\<close>, \<open>old_fee\<close>, \<open>new_fee\<close> and \<open>mtx\<close> of the two builders:
  the caller's values go in, the values at the return come out.
\<close>

record BumpState =
  errors :: "string list"
  old_fee :: CAmount
  new_fee :: CAmount
  mtx :: CMutableTransaction

subsection \<open>The total bump\<close>

text \<open>
  The search for the change output (lines 245 to 254): \<open>nOutput\<close> starts at \<open>-1\<close>;
  \<open>None\<close> is the return on a second change output. \<open>GetNumVOuts\<close>
  (primitives/transaction.h is not among the sources) is taken to be the length of
  \<open>vpout\<close>, the vector the loop indexes.
\<close>

fun change_scan :: "CWallet \<Rightarrow> CTxOut list \<Rightarrow> nat \<Rightarrow> int \<Rightarrow> int option" where
  "change_scan w [] i nOutput = Some nOutput"
| "change_scan w (out # outs) i nOutput =
     (if IsChange w out then
        (if nOutput \<noteq> -1 then None else change_scan w outs (Suc i) (int i))
      else change_scan w outs (Suc i) nOutput)"

text \<open>The old fee of the total bump (line 269).\<close>

definition total_old_fee :: "Lib \<Rightarrow> CWallet \<Rightarrow> CWalletTx \<Rightarrow> CAmount" where
  "total_old_fee L w wtx = CachedTxGetDebit w wtx ISMINE_SPENDABLE - GetValueOut L (tx wtx)"

text \<open>The new fee rate and the new fee of the total bump (lines 270 to 292).\<close>

definition total_new_fee ::
  "Lib \<Rightarrow> CWallet \<Rightarrow> CWalletTx \<Rightarrow> CCoinControl \<Rightarrow> int \<Rightarrow> CFeeRate \<times> CAmount" where
  "total_new_fee L w wtx coin_control maxNewTxSize =
    (let txSize = GetVirtualTransactionSize L (tx wtx);
         nOldFeeRate = CFeeRate_paid L (total_old_fee L w wtx) txSize;
         nodeIncrementalRelayFee = relayIncrementalFee (chain w);
         walletIncrementalRelayFee0 = CFeeRate_of (WALLET_INCREMENTAL_RELAY_FEE L);
         walletIncrementalRelayFee =
           (if feerate_less walletIncrementalRelayFee0 nodeIncrementalRelayFee
            then nodeIncrementalRelayFee else walletIncrementalRelayFee0);
         new_fee0 = GetMinimumFee w maxNewTxSize coin_control;
         nNewFeeRate0 = CFeeRate_paid L new_fee0 maxNewTxSize
     in if GetFeePerK nNewFeeRate0
             < GetFeePerK nOldFeeRate + 1 + GetFeePerK walletIncrementalRelayFee then
          (let nNewFeeRate =
                 CFeeRate_of (GetFeePerK nOldFeeRate + 1 + GetFeePerK walletIncrementalRelayFee)
           in (nNewFeeRate, GetFee L nNewFeeRate maxNewTxSize))
        else (nNewFeeRate0, new_fee0))"

text \<open>Marking the replacement not replaceable (lines 339 to 343).\<close>

definition mark_final :: "CTxIn list \<Rightarrow> CTxIn list" where
  "mark_final ins =
     map (\<lambda>input. if nSequence input < 0xfffffffe then input\<lparr>nSequence := 0xfffffffe\<rparr>
                   else input) ins"

text \<open>Shrinking the change output at position \<open>nOutput\<close> (lines 319 to 344).\<close>

definition shrink_change ::
  "Lib \<Rightarrow> CWallet \<Rightarrow> CWalletTx \<Rightarrow> CCoinControl \<Rightarrow> nat \<Rightarrow> BumpState
     \<Rightarrow> (Result \<times> BumpState) outcome" where
  "shrink_change L w wtx coin_control nOutput s =
    (let nDelta = new_fee s - old_fee s in
     if \<not> nDelta > 0 then AssertionFailure
     else
       (let mtx1 = CMutableTransaction_of (tx wtx);
            poutput = m_vpout mtx1 ! nOutput
        in if nValue poutput < nDelta then
             Returns (WALLET_ERROR,
                      s\<lparr>errors := errors s @ [''Change output is too small to bump the fee''],
                        mtx := mtx1\<rparr>)
           else
             (let poutput1 = poutput\<lparr>nValue := nValue poutput - nDelta\<rparr>;
                  dust = (nValue poutput1 \<le> GetDustThreshold L poutput1 (GetDiscardRate w));
                  new_fee1 = (if dust then new_fee s + nValue poutput1 else new_fee s);
                  vpout1 = (if dust then take nOutput (m_vpout mtx1) @
                                           drop (Suc nOutput) (m_vpout mtx1)
                            else (m_vpout mtx1)[nOutput := poutput1]);
                  signal = (case m_signal_bip125_rbf coin_control of
                              Some b \<Rightarrow> b | None \<Rightarrow> m_signal_rbf w);
                  vin1 = (if \<not> signal then mark_final (m_vin mtx1) else m_vin mtx1)
              in Returns (OK, s\<lparr>new_fee := new_fee1,
                               mtx := mtx1\<lparr>m_vin := vin1, m_vpout := vpout1\<rparr>\<rparr>))))"

text \<open>Pricing the total bump, once the change output is known (lines 260 to 317).\<close>

definition total_bump_price ::
  "Lib \<Rightarrow> CWallet \<Rightarrow> CWalletTx \<Rightarrow> CCoinControl \<Rightarrow> nat \<Rightarrow> BumpState
     \<Rightarrow> (Result \<times> BumpState) outcome" where
  "total_bump_price L w wtx coin_control nOutput s =
    (let maxNewTxSize = CalculateMaximumSignedTxSize w (tx wtx) in
     if maxNewTxSize < 0 then
       Returns (INVALID_ADDRESS_OR_KEY,
                s\<lparr>errors := errors s @ [''Transaction contains inputs that cannot be signed'']\<rparr>)
     else
       (let (nNewFeeRate, fee) = total_new_fee L w wtx coin_control maxNewTxSize;
            s1 = s\<lparr>old_fee := total_old_fee L w wtx, new_fee := fee\<rparr>;
            max_tx_fee = m_default_max_tx_fee w
        in if new_fee s1 > max_tx_fee then
             Returns (WALLET_ERROR,
                      s1\<lparr>errors := errors s1 @
                           [''Specified or calculated fee '' @ FormatMoney L (new_fee s1) @
                            '' is too high (cannot be higher than maxTxFee '' @
                            FormatMoney L max_tx_fee @ '')'']\<rparr>)
           else
             (let minMempoolFeeRate = mempoolMinFee (chain w) in
              if GetFeePerK nNewFeeRate < GetFeePerK minMempoolFeeRate then
                Returns (WALLET_ERROR,
                         s1\<lparr>errors := errors s1 @
                              [''New fee rate ('' @ FormatMoney L (GetFeePerK nNewFeeRate) @
                               '') is lower than the minimum fee rate ('' @
                               FormatMoney L (GetFeePerK minMempoolFeeRate) @
                               '') to get into the mempool -- the totalFee value should be at least '' @
                               FormatMoney L (GetFee L minMempoolFeeRate maxNewTxSize) @
                               '' or the settxfee value should be at least '' @
                               FormatMoney L (GetFeePerK minMempoolFeeRate) @
                               '' to add transaction'']\<rparr>)
              else shrink_change L w wtx coin_control nOutput s1)))"

definition CreateTotalBumpTransaction ::
  "Lib \<Rightarrow> CWallet \<Rightarrow> uint256 \<Rightarrow> CCoinControl \<Rightarrow> BumpState \<Rightarrow> (Result \<times> BumpState) outcome" where
  "CreateTotalBumpTransaction L w txid coin_control s0 =
    (let s = s0\<lparr>new_fee := 0, errors := []\<rparr> in
     if \<not> IsParticlWallet w then Returns (WALLET_ERROR, s)
     else
       (case mapWallet w txid of
          None \<Rightarrow>
            Returns (INVALID_ADDRESS_OR_KEY,
                     s\<lparr>errors := errors s @ [''Invalid or non-wallet transaction id'']\<rparr>)
        | Some wtx \<Rightarrow>
            (case PreconditionChecks L w wtx True (errors s) of
               (result, errs) \<Rightarrow>
                 if result \<noteq> OK then Returns (result, s\<lparr>errors := errs\<rparr>)
                 else
                   (case change_scan w (vpout (tx wtx)) 0 (-1) of
                      None \<Rightarrow>
                        Returns (WALLET_ERROR,
                                 s\<lparr>errors := errs @ [''Transaction has multiple change outputs'']\<rparr>)
                    | Some nOutput \<Rightarrow>
                        if nOutput = -1 then
                          Returns (WALLET_ERROR,
                                   s\<lparr>errors := errs @
                                        [''Transaction does not have a change output'']\<rparr>)
                        else total_bump_price L w wtx coin_control (nat nOutput)
                               (s\<lparr>errors := errs\<rparr>)))))"

subsection \<open>The rate bump\<close>

text \<open>
  Lines 371 to 388: the coin of every input is looked up; a missing coin ends the bump
  (\<open>Inl\<close> carries the diagnostic). The accumulators are the coin control, the input
  value and the spent outputs. \<open>ToString\<close> also stands for \<open>GetHex\<close>, which gives the
  same string for a \<open>uint256\<close>.
\<close>

fun harvest_inputs ::
  "Lib \<Rightarrow> CWallet \<Rightarrow> CTxIn list \<Rightarrow> CCoinControl \<times> CAmount \<times> CTxOut list
     \<Rightarrow> string + (CCoinControl \<times> CAmount \<times> CTxOut list)" where
  "harvest_inputs L w [] acc = Inr acc"
| "harvest_inputs L w (txin # rest) (cc, input_value, spent_outputs) =
     (case findCoins (chain w) (prevout txin) of
        None \<Rightarrow>
          Inl (ToString L (op_hash (prevout txin)) @ '':'' @ FormatUInt L (op_n (prevout txin)) @
               '' is already spent'')
      | Some coin_out \<Rightarrow>
          harvest_inputs L w rest
            (if IsMine w (prevout txin) then Select cc (prevout txin)
             else SelectExternal cc (prevout txin) coin_out,
             input_value + nValue coin_out,
             spent_outputs @ [coin_out]))"

text \<open>
  Lines 393 to 412: the weight of every externally selected input, from input \<open>i\<close> on.
  \<open>GetWeightDiffToMax\<close> stands for the script verification with the size-recording
  checker and the slack it reports.
\<close>

fun input_weights :: "Lib \<Rightarrow> CWallet \<Rightarrow> CTransaction \<Rightarrow> nat \<Rightarrow> CTxIn list \<Rightarrow> CCoinControl
     \<Rightarrow> CCoinControl" where
  "input_weights L w t i [] cc = cc"
| "input_weights L w t i (txin # rest) cc =
     input_weights L w t (Suc i) rest
       (if IsExternalSelected cc (prevout txin) then
          (case findCoins (chain w) (prevout txin) of
             Some coin_out \<Rightarrow>
               SetInputWeight cc (prevout txin)
                 (GetTransactionInputWeight L txin + GetWeightDiffToMax L t i coin_out)
           | None \<Rightarrow> cc)
        else cc)"

text \<open>
  Lines 426 to 436: payees are kept, a change output gives the change destination.
  The accumulators are the recipients, the output value and the coin control.
\<close>

fun harvest_outputs ::
  "Lib \<Rightarrow> CWallet \<Rightarrow> CTxOut list \<Rightarrow> CRecipient list \<times> CAmount \<times> CCoinControl
     \<Rightarrow> CRecipient list \<times> CAmount \<times> CCoinControl" where
  "harvest_outputs L w [] acc = acc"
| "harvest_outputs L w (output # rest) (recipients, output_value, cc) =
     harvest_outputs L w rest
       (if \<not> OutputIsChange w output then
          (recipients @ [\<lparr>r_scriptPubKey = scriptPubKey output, nAmount = nValue output,
                          fSubtractFeeFromAmount = False\<rparr>],
           output_value + nValue output, cc)
        else
          (recipients, output_value + nValue output,
           cc\<lparr>destChange := ExtractDestination L (scriptPubKey output)\<rparr>))"

text \<open>Lines 444 to 448: the temporary transaction without unlocking data.\<close>

definition clear_signatures :: "CMutableTransaction \<Rightarrow> CMutableTransaction" where
  "clear_signatures m =
     m\<lparr>m_vin := map (\<lambda>txin. txin\<lparr>scriptSig := [], scriptWitness := []\<rparr>) (m_vin m)\<rparr>"

text \<open>Lines 466 to 472: every input is selected, then the two constraints are set.\<close>

definition select_all_inputs :: "CTxIn list \<Rightarrow> CCoinControl \<Rightarrow> CCoinControl" where
  "select_all_inputs ins cc = fold (\<lambda>inputs c. Select c (prevout inputs)) ins cc"

text \<open>
  Everything of \<open>CreateRateBumpTransaction\<close> that comes before the call of the builder,
  for a transaction found in the wallet: \<open>Inl\<close> is an early end, \<open>Inr\<close> carries the
  recipients, the coin control handed to \<open>CreateTransaction\<close>, and the state.
  The fee rate of the copied coin control is the caller's (no step before line 450
  writes it), so \<open>*new_coin_control.m_feerate\<close> is the rate found in \<open>coin_control\<close>.
\<close>

definition rate_bump_prepare ::
  "Lib \<Rightarrow> CWallet \<Rightarrow> CWalletTx \<Rightarrow> CCoinControl \<Rightarrow> BumpState \<Rightarrow> bool
     \<Rightarrow> (Result \<times> BumpState) outcome + (CRecipient list \<times> CCoinControl \<times> BumpState)" where
  "rate_bump_prepare L w wtx coin_control s require_mine =
    (case harvest_inputs L w (vin (tx wtx)) (coin_control, 0, []) of
       Inl msg \<Rightarrow> Inl (Returns (MISC_ERROR, s\<lparr>errors := errors s @ [msg]\<rparr>))
     | Inr (cc1, input_value, spent_outputs) \<Rightarrow>
         (let cc2 = input_weights L w (tx wtx) 0 (vin (tx wtx)) cc1 in
          case PreconditionChecks L w wtx require_mine (errors s) of
            (result, errs) \<Rightarrow>
              if result \<noteq> OK then Inl (Returns (result, s\<lparr>errors := errs\<rparr>))
              else if IsParticlWallet w then Inl AssertionFailure
              else
                (case harvest_outputs L w (vout (tx wtx)) ([], 0, cc2) of
                   (recipients, output_value, cc3) \<Rightarrow>
                     (let s1 = s\<lparr>errors := errs, old_fee := input_value - output_value\<rparr> in
                      case m_feerate coin_control of
                        Some newFeerate \<Rightarrow>
                          (let mtx_tmp = clear_signatures (CMutableTransaction_of (tx wtx));
                               maxTxSize = CalculateMaximumSignedTxSize_cc w
                                             (MakeTransactionRef L mtx_tmp) cc3
                           in case CheckFeeRate L w wtx newFeerate maxTxSize
                                     (old_fee s1) (errors s1) of
                                (res, errs1) \<Rightarrow>
                                  if res \<noteq> OK then Inl (Returns (res, s1\<lparr>errors := errs1\<rparr>))
                                  else
                                    Inr (recipients,
                                         (select_all_inputs (vin (tx wtx)) cc3)
                                           \<lparr>m_allow_other_inputs := True, m_min_depth := 1\<rparr>,
                                         s1\<lparr>errors := errs1\<rparr>))
                      | None \<Rightarrow>
                          (let cc4 = cc3\<lparr>m_feerate :=
                                            Some (EstimateFeeRate L w wtx (old_fee s1) cc3)\<rparr>
                           in Inr (recipients,
                                   (select_all_inputs (vin (tx wtx)) cc4)
                                     \<lparr>m_allow_other_inputs := True, m_min_depth := 1\<rparr>,
                                   s1))))))"

definition CreateRateBumpTransaction ::
  "Lib \<Rightarrow> CWallet \<Rightarrow> uint256 \<Rightarrow> CCoinControl \<Rightarrow> BumpState \<Rightarrow> bool
     \<Rightarrow> (Result \<times> BumpState) outcome" where
  "CreateRateBumpTransaction L w txid coin_control s0 require_mine =
    (let s = s0\<lparr>errors := []\<rparr> in
     case mapWallet w txid of
       None \<Rightarrow>
         Returns (INVALID_ADDRESS_OR_KEY,
                  s\<lparr>errors := errors s @ [''Invalid or non-wallet transaction id'']\<rparr>)
     | Some wtx \<Rightarrow>
         (case rate_bump_prepare L w wtx coin_control s require_mine of
            Inl stop \<Rightarrow> stop
          | Inr (recipients, new_coin_control, s1) \<Rightarrow>
              (case CreateTransaction w recipients (-1) new_coin_control False of
                 Inl err \<Rightarrow>
                   Returns (WALLET_ERROR,
                            s1\<lparr>errors := errors s1 @
                                 [''Unable to create transaction.'' @ '' '' @ err]\<rparr>)
               | Inr (built, fee) \<Rightarrow>
                   Returns (OK, s1\<lparr>new_fee := fee, mtx := CMutableTransaction_of built\<rparr>))))"

subsection \<open>Commit\<close>

text \<open>
  The two wallet operations of the commit step that change the wallet (wallet.cpp is not
  among the sources): adding the new transaction, and marking the original as replaced,
  which reports whether it succeeded.
\<close>

record WalletStore =
  wallet_CommitTransaction ::
    "CWallet \<Rightarrow> CTransaction \<Rightarrow> (string \<rightharpoonup> string) \<Rightarrow> (string \<times> string) list \<Rightarrow> CWallet"
  MarkReplaced :: "CWallet \<Rightarrow> uint256 \<Rightarrow> uint256 \<Rightarrow> bool \<times> CWallet"

record CommitState =
  c_errors :: "string list"
  bumped_txid :: uint256
  c_wallet :: CWallet

definition CommitTransaction ::
  "Lib \<Rightarrow> WalletStore \<Rightarrow> uint256 \<Rightarrow> CMutableTransaction \<Rightarrow> CommitState
     \<Rightarrow> Result \<times> CommitState" where
  "CommitTransaction L D txid mtx0 c =
    (let w = c_wallet c in
     if c_errors c \<noteq> [] then (MISC_ERROR, c)
     else
       (case (if txid = 0 then None else mapWallet w txid) of
          None \<Rightarrow>
            (MISC_ERROR, c\<lparr>c_errors := c_errors c @ [''Invalid or non-wallet transaction id'']\<rparr>)
        | Some oldWtx \<Rightarrow>
            (case PreconditionChecks L w oldWtx False (c_errors c) of
               (result, errs) \<Rightarrow>
                 if result \<noteq> OK then (result, c\<lparr>c_errors := errs\<rparr>)
                 else
                   (let new_tx = MakeTransactionRef L mtx0;
                        mapValue1 = (mapValue oldWtx)
                                      (''replaces_txid'' \<mapsto> ToString L (GetHash (tx oldWtx)));
                        w1 = wallet_CommitTransaction D w new_tx mapValue1 (vOrderForm oldWtx);
                        bumped = GetHash new_tx;
                        (marked, w2) = MarkReplaced D w1 (GetHash (tx oldWtx)) bumped
                    in (OK,
                        \<lparr>c_errors =
                           (if \<not> marked then
                              errs @ [''Created new bumpfee transaction but could not mark the original transaction as replaced'']
                            else errs),
                         bumped_txid = bumped, c_wallet = w2\<rparr>)))))"

section \<open>Concrete wallets and transactions\<close>

text \<open>
  A library instance: fee rates per 1000 units of size, fees rounded up; a transaction
  signals replaceability when one of its sequence numbers is at most \<open>0xfffffffd\<close>.
\<close>

definition ex_lib :: Lib where
  "ex_lib =
    \<lparr>fParticlMode = False,
     SignalsOptInRBF = (\<lambda>t. list_ex (\<lambda>txin. nSequence txin \<le> 0xfffffffd) (vin t)),
     GetVirtualTransactionSize = (\<lambda>t. 225),
     GetTransactionInputWeight = (\<lambda>txin. 272),
     GetWeightDiffToMax = (\<lambda>t i coin_out. 2),
     CFeeRate_paid = (\<lambda>fee size. CFeeRate_of (if size > 0 then fee * 1000 div size else 0)),
     GetFee = (\<lambda>rate size. (GetFeePerK rate * size + 999) div 1000),
     WALLET_INCREMENTAL_RELAY_FEE = 1000,
     GetValueOut = (\<lambda>t. sum_list (map nValue (vout t)) + sum_list (map nValue (vpout t))),
     GetDustThreshold = (\<lambda>txout rate. 546),
     ExtractDestination = KnownDestination,
     ToString = (\<lambda>h. ''txid''),
     FormatMoney = (\<lambda>a. ''amount''),
     FormatUInt = (\<lambda>n. ''n''),
     MakeTransactionRef =
       (\<lambda>m. \<lparr>vin = m_vin m, vout = m_vout m, vpout = m_vpout m, GetHash = 99\<rparr>)\<rparr>"

definition ex_particl_lib :: Lib where
  "ex_particl_lib = ex_lib\<lparr>fParticlMode := True\<rparr>"

definition ex_outpoint :: COutPoint where
  "ex_outpoint = \<lparr>op_hash = 7, op_n = 0\<rparr>"

definition ex_txin :: CTxIn where
  "ex_txin = \<lparr>prevout = ex_outpoint, scriptSig = [71], scriptWitness = [], nSequence = 0xfffffffd\<rparr>"

definition ex_coin :: CTxOut where
  "ex_coin = \<lparr>nValue = 100000, scriptPubKey = [1]\<rparr>"

definition ex_payee :: CTxOut where
  "ex_payee = \<lparr>nValue = 99300, scriptPubKey = [2]\<rparr>"

text \<open>A change output of a given value: the wallets below know script \<open>[3]\<close> as change.\<close>

definition ex_change :: "CAmount \<Rightarrow> CTxOut" where
  "ex_change v = \<lparr>nValue = v, scriptPubKey = [3]\<rparr>"

text \<open>A transaction with its outputs in \<open>vout\<close>, for the rate bump.\<close>

definition ex_tx :: CTransaction where
  "ex_tx = \<lparr>vin = [ex_txin], vout = [ex_payee, ex_change 600], vpout = [], GetHash = 1\<rparr>"

definition ex_wtx :: CWalletTx where
  "ex_wtx = \<lparr>tx = ex_tx, mapValue = Map.empty, vOrderForm = []\<rparr>"

text \<open>Transactions with their outputs in \<open>vpout\<close>, for the total bump.\<close>

definition ex_ptx :: "CTxOut list \<Rightarrow> CWalletTx" where
  "ex_ptx outs =
    \<lparr>tx = \<lparr>vin = [ex_txin], vout = [], vpout = outs, GetHash = 2\<rparr>,
     mapValue = Map.empty, vOrderForm = []\<rparr>"

definition ex_chain :: Chain where
  "ex_chain =
    \<lparr>hasDescendantsInMempool = (\<lambda>h. False),
     mempoolMinFee = CFeeRate_of 1000,
     relayIncrementalFee = CFeeRate_of 1000,
     findCoins = [ex_outpoint \<mapsto> ex_coin]\<rparr>"

text \<open>
  A wallet that is not a Particl wallet, holding \<open>ex_wtx\<close> under id 1. Every transaction
  has paid a fee of 100.
\<close>

definition ex_wallet :: CWallet where
  "ex_wallet =
    \<lparr>chain = ex_chain,
     mapWallet = [1 \<mapsto> ex_wtx],
     IsParticlWallet = False,
     mapRecords = Map.empty,
     HasWalletSpend = (\<lambda>t. False),
     HasWalletSpend_rec = (\<lambda>h r. False),
     GetTxDepthInMainChain = (\<lambda>wtx. 0),
     GetDepthInMainChain_rec = (\<lambda>r. 0),
     GetLegacyScriptPubKeyMan = True,
     WALLET_FLAG_DISABLE_PRIVATE_KEYS = False,
     InputIsMine = (\<lambda>txin f. f = ISMINE_SPENDABLE),
     IsMine = (\<lambda>outp. True),
     IsChange = (\<lambda>txout. scriptPubKey txout = [3]),
     OutputIsChange = (\<lambda>txout. scriptPubKey txout = [3]),
     m_default_max_tx_fee = 10000000,
     m_signal_rbf = True,
     CalculateMaximumSignedTxSize = (\<lambda>t. 225),
     CalculateMaximumSignedTxSize_cc = (\<lambda>t cc. 230),
     CachedTxGetDebit =
       (\<lambda>wtx f. sum_list (map nValue (vout (tx wtx))) + sum_list (map nValue (vpout (tx wtx))) + 100),
     GetMinimumFee = (\<lambda>size cc. 226),
     GetMinimumFeeRate = (\<lambda>cc. CFeeRate_of 1000),
     GetRequiredFee = (\<lambda>size. size),
     GetDiscardRate = CFeeRate_of 3000,
     CreateTransaction =
       (\<lambda>recipients pos cc sign.
          Inr (\<lparr>vin = [ex_txin],
                 vout = map (\<lambda>r. \<lparr>nValue = nAmount r, scriptPubKey = r_scriptPubKey r\<rparr>) recipients,
                 vpout = [], GetHash = 42\<rparr>, 700))\<rparr>"

text \<open>A Particl wallet holding the transaction with the outputs \<open>outs\<close> under id 2.\<close>

definition ex_pwallet :: "CTxOut list \<Rightarrow> CWallet" where
  "ex_pwallet outs = ex_wallet\<lparr>IsParticlWallet := True, mapWallet := [2 \<mapsto> ex_ptx outs]\<rparr>"

definition ex_coin_control :: CCoinControl where
  "ex_coin_control =
    \<lparr>setSelected = {}, m_external_txouts = Map.empty, m_input_weights = Map.empty,
     m_feerate = None, destChange = CNoDestination, m_allow_other_inputs = False,
     m_min_depth = 0, m_signal_bip125_rbf = None\<rparr>"

definition ex_state :: BumpState where
  "ex_state =
    \<lparr>errors = [''stale''], old_fee = 0, new_fee = 0,
     mtx = \<lparr>m_vin = [], m_vout = [], m_vpout = []\<rparr>\<rparr>"

text \<open>
  A legacy wallet with private keys disabled whose inputs are watch-only, the same
  wallet without a legacy key manager, and a wallet that owns no input.
\<close>

definition ex_watch_wallet :: CWallet where
  "ex_watch_wallet =
     ex_wallet\<lparr>WALLET_FLAG_DISABLE_PRIVATE_KEYS := True,
               InputIsMine := (\<lambda>txin f. f = ISMINE_WATCH_ONLY)\<rparr>"

definition ex_descriptor_watch_wallet :: CWallet where
  "ex_descriptor_watch_wallet = ex_watch_wallet\<lparr>GetLegacyScriptPubKeyMan := False\<rparr>"

definition ex_foreign_wallet :: CWallet where
  "ex_foreign_wallet = ex_wallet\<lparr>InputIsMine := (\<lambda>txin f. False)\<rparr>"

text \<open>The recipients and the coin control that the rate bump of \<open>ex_wtx\<close> hands to the builder.\<close>

definition ex_new_coin_control :: CCoinControl where
  "ex_new_coin_control =
    \<lparr>setSelected = {ex_outpoint}, m_external_txouts = Map.empty, m_input_weights = Map.empty,
     m_feerate = Some (CFeeRate_of 1445), destChange = KnownDestination [3],
     m_allow_other_inputs = True, m_min_depth = 1, m_signal_bip125_rbf = None\<rparr>"

definition ex_recipient :: CRecipient where
  "ex_recipient = \<lparr>r_scriptPubKey = [2], nAmount = 99300, fSubtractFeeFromAmount = False\<rparr>"

text \<open>
  A wallet whose transaction has a descendant in the wallet and whose coin is gone; and a
  wallet whose transaction was already replaced.
\<close>

definition ex_spent_wallet :: CWallet where
  "ex_spent_wallet =
     ex_wallet\<lparr>chain := ex_chain\<lparr>findCoins := Map.empty\<rparr>, HasWalletSpend := (\<lambda>t. True)\<rparr>"

definition ex_replaced_wtx :: CWalletTx where
  "ex_replaced_wtx = ex_wtx\<lparr>mapValue := [''replaced_by_txid'' \<mapsto> ''ab'']\<rparr>"

definition ex_replaced_wallet :: CWallet where
  "ex_replaced_wallet = ex_wallet\<lparr>mapWallet := [1 \<mapsto> ex_replaced_wtx]\<rparr>"

text \<open>
  A wallet store that adds the new transaction and marks the original; one whose marking
  fails; the state at the start of a commit; a built replacement.
\<close>

definition ex_store :: WalletStore where
  "ex_store =
    \<lparr>wallet_CommitTransaction =
       (\<lambda>w t mv ord. w\<lparr>mapWallet := (mapWallet w)(GetHash t \<mapsto> \<lparr>tx = t, mapValue = mv, vOrderForm = ord\<rparr>)\<rparr>),
     MarkReplaced =
       (\<lambda>w old new.
          case mapWallet w old of
            None \<Rightarrow> (False, w)
          | Some wtx \<Rightarrow>
              (True, w\<lparr>mapWallet := (mapWallet w)
                          (old \<mapsto> wtx\<lparr>mapValue := (mapValue wtx)(''replaced_by_txid'' \<mapsto> ''new'')\<rparr>)\<rparr>))\<rparr>"

definition ex_failing_store :: WalletStore where
  "ex_failing_store = ex_store\<lparr>MarkReplaced := (\<lambda>w old new. (False, w))\<rparr>"

definition ex_commit_state :: CommitState where
  "ex_commit_state = \<lparr>c_errors = [], bumped_txid = 0, c_wallet = ex_wallet\<rparr>"

definition ex_built :: CMutableTransaction where
  "ex_built = \<lparr>m_vin = [ex_txin], m_vout = [ex_payee], m_vpout = []\<rparr>"

text \<open>
  The states after three builds: the total bump that drops a change output of 600, the
  rate bump of \<open>ex_wtx\<close>, and the total bump that keeps a change output of 2000.
\<close>

definition ex_particl_built :: BumpState where
  "ex_particl_built =
     \<lparr>errors = [], old_fee = 100, new_fee = 700,
      mtx = \<lparr>m_vin = [ex_txin], m_vout = [], m_vpout = [ex_payee]\<rparr>\<rparr>"

definition ex_rate_built :: BumpState where
  "ex_rate_built =
     \<lparr>errors = [], old_fee = 100, new_fee = 700,
      mtx = \<lparr>m_vin = [ex_txin], m_vout = [ex_payee], m_vpout = []\<rparr>\<rparr>"

definition ex_particl_kept :: BumpState where
  "ex_particl_kept =
     \<lparr>errors = [], old_fee = 100, new_fee = 326,
      mtx = \<lparr>m_vin = [ex_txin], m_vout = [], m_vpout = [ex_payee, ex_change 1774]\<rparr>\<rparr>"

text \<open>
  Three Particl wallets holding a transaction with one change output of 100: one with a
  fee ceiling of 300, one whose mempool asks for a rate of 2000, and one whose inputs
  cannot be signed.
\<close>

definition ex_ceiling_wallet :: CWallet where
  "ex_ceiling_wallet = (ex_pwallet [ex_payee, ex_change 100])\<lparr>m_default_max_tx_fee := 300\<rparr>"

definition ex_floor_wallet :: CWallet where
  "ex_floor_wallet =
     (ex_pwallet [ex_payee, ex_change 100])\<lparr>chain := ex_chain\<lparr>mempoolMinFee := CFeeRate_of 2000\<rparr>\<rparr>"

definition ex_unsignable_wallet :: CWallet where
  "ex_unsignable_wallet =
     (ex_pwallet [ex_payee, ex_change 100])\<lparr>CalculateMaximumSignedTxSize := (\<lambda>t. -1)\<rparr>"

lemmas ex_defs = ex_lib_def ex_particl_lib_def ex_outpoint_def ex_txin_def ex_coin_def ex_payee_def
  ex_change_def ex_tx_def ex_wtx_def ex_ptx_def ex_chain_def ex_wallet_def ex_pwallet_def
  ex_coin_control_def ex_state_def

section \<open>Results and diagnostics of the checkers\<close>

lemma PreconditionChecks_fst:
  "fst (PreconditionChecks L w wtx require_mine errs) =
    (if HasWalletSpend w (tx wtx) \<or> hasDescendantsInMempool (chain w) (GetHash (tx wtx))
     then INVALID_PARAMETER
     else if GetTxDepthInMainChain w wtx \<noteq> 0 \<or> \<not> SignalsOptInRBF L (tx wtx)
             \<or> mapValue wtx ''replaced_by_txid'' \<noteq> None
     then WALLET_ERROR
     else if require_mine \<and>
             \<not> (\<forall>txin \<in> set (vin (tx wtx)).
                  InputIsMine w txin
                    (if GetLegacyScriptPubKeyMan w \<and> WALLET_FLAG_DISABLE_PRIVATE_KEYS w
                     then ISMINE_WATCH_ONLY else ISMINE_SPENDABLE))
     then WALLET_ERROR
     else OK)"
  by (simp add: PreconditionChecks_def AllInputsMine_def list_all_iff Let_def split: option.split)

lemma PreconditionChecks_errors:
  assumes "PreconditionChecks L w wtx require_mine errs = (r, errs')"
  shows "(r = OK \<longrightarrow> errs' = errs) \<and> (r \<noteq> OK \<longrightarrow> errs' \<noteq> []) \<and> r \<noteq> MISC_ERROR"
  using assms
  by (auto simp: PreconditionChecks_def Let_def split: if_splits option.splits)

lemma PreconditionChecks_fst_errs:
  "fst (PreconditionChecks L w wtx require_mine errs) = fst (PreconditionChecks L w wtx require_mine [])"
  by (simp add: PreconditionChecks_fst)

lemma CheckFeeRate_errors:
  assumes "CheckFeeRate L w wtx rate vsize paid errs = (r, errs')"
  shows "(r = OK \<longrightarrow> errs' = errs) \<and> (r \<noteq> OK \<longrightarrow> errs' \<noteq> []) \<and> r \<noteq> MISC_ERROR"
  using assms
  by (auto simp: CheckFeeRate_def Let_def split: if_splits)

lemma PreconditionChecks_rec_not_OK: "fst (PreconditionChecks_rec w h rtx errs) \<noteq> OK"
  by (simp add: PreconditionChecks_rec_def)

lemma feerate_max_PerK:
  "GetFeePerK (feerate_max a b) = max (GetFeePerK a) (GetFeePerK b)"
  by (simp add: feerate_max_def feerate_less_def max_def)

section \<open>The stages of the rate bump\<close>

lemma harvest_inputs_Inl:
  "(\<exists>msg. harvest_inputs L w ins acc = Inl msg) \<longleftrightarrow>
   (\<exists>txin \<in> set ins. findCoins (chain w) (prevout txin) = None)"
proof (induction ins arbitrary: acc)
  case Nil
  then show ?case by simp
next
  case (Cons txin rest)
  obtain cc v sp where acc: "acc = (cc, v, sp)" by (cases acc)
  show ?case
  proof (cases "findCoins (chain w) (prevout txin)")
    case None
    then show ?thesis by (simp add: acc)
  next
    case (Some coin_out)
    then show ?thesis using Cons.IH by (simp add: acc)
  qed
qed

lemma harvest_inputs_Inr:
  "(\<exists>acc'. harvest_inputs L w ins acc = Inr acc') \<longleftrightarrow>
   (\<forall>txin \<in> set ins. findCoins (chain w) (prevout txin) \<noteq> None)"
proof -
  have "(\<exists>acc'. harvest_inputs L w ins acc = Inr acc') \<longleftrightarrow> \<not> (\<exists>msg. harvest_inputs L w ins acc = Inl msg)"
    by (cases "harvest_inputs L w ins acc") auto
  then show ?thesis by (simp add: harvest_inputs_Inl)
qed

lemma setSelected_select_all_inputs:
  "setSelected (select_all_inputs ins cc) = setSelected cc \<union> prevout ` set ins"
  unfolding select_all_inputs_def
  by (induction ins arbitrary: cc) (auto simp: Select_def)

lemma rate_bump_prepare_Inr:
  assumes "rate_bump_prepare L w wtx coin_control s require_mine = Inr (recipients, new_cc, s1)"
  shows "prevout ` set (vin (tx wtx)) \<subseteq> setSelected new_cc \<and> m_min_depth new_cc = 1 \<and>
         m_allow_other_inputs new_cc \<and> errors s1 = errors s \<and> \<not> IsParticlWallet w \<and>
         fst (PreconditionChecks L w wtx require_mine []) = OK"
proof -
  from assms obtain cc1 iv sp where h: "harvest_inputs L w (vin (tx wtx)) (coin_control, 0, []) = Inr (cc1, iv, sp)"
    by (auto simp: rate_bump_prepare_def split: sum.splits)
  obtain r errs where p: "PreconditionChecks L w wtx require_mine (errors s) = (r, errs)"
    by (cases "PreconditionChecks L w wtx require_mine (errors s)")
  from assms h p have r: "r = OK" and np: "\<not> IsParticlWallet w"
    by (auto simp: rate_bump_prepare_def Let_def split: if_splits)
  from p r have e: "errs = errors s" using PreconditionChecks_errors by blast
  from p r have f: "fst (PreconditionChecks L w wtx require_mine []) = OK"
    using PreconditionChecks_fst_errs [of L w wtx require_mine "errors s"] by simp
  obtain rc ov cc3 where o: "harvest_outputs L w (vout (tx wtx)) ([], 0, input_weights L w (tx wtx) 0 (vin (tx wtx)) cc1) = (rc, ov, cc3)"
    by (cases "harvest_outputs L w (vout (tx wtx)) ([], 0, input_weights L w (tx wtx) 0 (vin (tx wtx)) cc1)")
  show ?thesis
  proof (cases "m_feerate coin_control")
    case None
    with assms h p r np o e f show ?thesis
      by (auto simp: rate_bump_prepare_def Let_def setSelected_select_all_inputs)
  next
    case (Some rate)
    obtain r2 errs2 where c: "CheckFeeRate L w wtx rate
        (CalculateMaximumSignedTxSize_cc w (MakeTransactionRef L (clear_signatures (CMutableTransaction_of (tx wtx)))) cc3)
        (iv - ov) (errors s) = (r2, errs2)"
      by (cases "CheckFeeRate L w wtx rate
        (CalculateMaximumSignedTxSize_cc w (MakeTransactionRef L (clear_signatures (CMutableTransaction_of (tx wtx)))) cc3)
        (iv - ov) (errors s)")
    from assms h p r np o e Some c have r2: "r2 = OK"
      by (auto simp: rate_bump_prepare_def Let_def split: if_splits)
    with c have "errs2 = errors s" using CheckFeeRate_errors by blast
    with assms h p r np o e f Some c r2 show ?thesis
      by (auto simp: rate_bump_prepare_def Let_def setSelected_select_all_inputs)
  qed
qed

lemma rate_bump_prepare_Inl:
  assumes "rate_bump_prepare L w wtx coin_control s require_mine = Inl (Returns (r, s1))"
  shows "r \<noteq> OK \<and> errors s1 \<noteq> [] \<and>
         (r = MISC_ERROR \<longleftrightarrow> (\<exists>txin \<in> set (vin (tx wtx)). findCoins (chain w) (prevout txin) = None))"
proof (cases "harvest_inputs L w (vin (tx wtx)) (coin_control, 0, [])")
  case (Inl msg)
  then have "\<exists>txin \<in> set (vin (tx wtx)). findCoins (chain w) (prevout txin) = None"
    using harvest_inputs_Inl by blast
  with assms Inl show ?thesis by (auto simp: rate_bump_prepare_def)
next
  case (Inr acc)
  then have all: "\<forall>txin \<in> set (vin (tx wtx)). findCoins (chain w) (prevout txin) \<noteq> None"
    using harvest_inputs_Inr by blast
  obtain cc1 iv sp where acc: "acc = (cc1, iv, sp)" by (cases acc)
  obtain r1 errs where p: "PreconditionChecks L w wtx require_mine (errors s) = (r1, errs)"
    by (cases "PreconditionChecks L w wtx require_mine (errors s)")
  note pe = PreconditionChecks_errors [OF p]
  show ?thesis
  proof (cases "r1 = OK")
    case False
    with assms Inr acc p pe all show ?thesis
      by (auto simp: rate_bump_prepare_def Let_def)
  next
    case True
    obtain rc ov cc3 where o: "harvest_outputs L w (vout (tx wtx)) ([], 0, input_weights L w (tx wtx) 0 (vin (tx wtx)) cc1) = (rc, ov, cc3)"
      by (cases "harvest_outputs L w (vout (tx wtx)) ([], 0, input_weights L w (tx wtx) 0 (vin (tx wtx)) cc1)")
    show ?thesis
    proof (cases "m_feerate coin_control")
      case None
      with assms Inr acc p True o show ?thesis
        by (auto simp: rate_bump_prepare_def Let_def split: if_splits)
    next
      case (Some rate)
      obtain r2 errs2 where c: "CheckFeeRate L w wtx rate
          (CalculateMaximumSignedTxSize_cc w (MakeTransactionRef L (clear_signatures (CMutableTransaction_of (tx wtx)))) cc3)
          (iv - ov) errs = (r2, errs2)"
        by (cases "CheckFeeRate L w wtx rate
          (CalculateMaximumSignedTxSize_cc w (MakeTransactionRef L (clear_signatures (CMutableTransaction_of (tx wtx)))) cc3)
          (iv - ov) errs")
      note ce = CheckFeeRate_errors [OF c]
      from assms Inr acc p True o Some c ce all show ?thesis
        by (auto simp: rate_bump_prepare_def Let_def split: if_splits)
    qed
  qed
qed

lemma harvest_inputs_missing:
  "find (\<lambda>txin. findCoins (chain w) (prevout txin) = None) ins = Some txin \<Longrightarrow>
   harvest_inputs L w ins acc =
     Inl (ToString L (op_hash (prevout txin)) @ '':'' @ FormatUInt L (op_n (prevout txin)) @
          '' is already spent'')"
proof (induction ins arbitrary: acc)
  case Nil
  then show ?case by simp
next
  case (Cons a rest)
  obtain cc v sp where acc: "acc = (cc, v, sp)" by (cases acc)
  show ?case
  proof (cases "findCoins (chain w) (prevout a)")
    case None
    with Cons.prems show ?thesis by (simp add: acc)
  next
    case (Some coin_out)
    with Cons show ?thesis by (simp add: acc)
  qed
qed

lemma rate_bump_prepare_precondition:
  assumes "\<forall>txin \<in> set (vin (tx wtx)). findCoins (chain w) (prevout txin) \<noteq> None"
    and "fst (PreconditionChecks L w wtx require_mine (errors s)) \<noteq> OK"
  shows "rate_bump_prepare L w wtx coin_control s require_mine =
           Inl (Returns (fst (PreconditionChecks L w wtx require_mine (errors s)),
                         s\<lparr>errors := snd (PreconditionChecks L w wtx require_mine (errors s))\<rparr>))"
proof -
  from assms(1) obtain acc where h: "harvest_inputs L w (vin (tx wtx)) (coin_control, 0, []) = Inr acc"
    using harvest_inputs_Inr by blast
  obtain cc1 iv sp where acc: "acc = (cc1, iv, sp)" by (cases acc)
  obtain r errs where p: "PreconditionChecks L w wtx require_mine (errors s) = (r, errs)"
    by (cases "PreconditionChecks L w wtx require_mine (errors s)")
  from assms(2) h acc p show ?thesis
    by (simp add: rate_bump_prepare_def Let_def)
qed

lemma rate_bump_prepare_particl:
  assumes "\<forall>txin \<in> set (vin (tx wtx)). findCoins (chain w) (prevout txin) \<noteq> None"
    and "fst (PreconditionChecks L w wtx require_mine (errors s)) = OK"
    and "IsParticlWallet w"
  shows "rate_bump_prepare L w wtx coin_control s require_mine = Inl AssertionFailure"
proof -
  from assms(1) obtain acc where h: "harvest_inputs L w (vin (tx wtx)) (coin_control, 0, []) = Inr acc"
    using harvest_inputs_Inr by blast
  obtain cc1 iv sp where acc: "acc = (cc1, iv, sp)" by (cases acc)
  obtain r errs where p: "PreconditionChecks L w wtx require_mine (errors s) = (r, errs)"
    by (cases "PreconditionChecks L w wtx require_mine (errors s)")
  from assms(2,3) h acc p show ?thesis
    by (simp add: rate_bump_prepare_def Let_def)
qed

lemma CreateRateBumpTransaction_Returns:
  assumes "CreateRateBumpTransaction L w txid coin_control s0 require_mine = Returns (r, s)"
  shows "(r = OK \<longleftrightarrow> errors s = []) \<and> (r = OK \<longrightarrow> \<not> IsParticlWallet w) \<and>
         (r = MISC_ERROR \<longrightarrow>
            (\<exists>wtx. mapWallet w txid = Some wtx \<and>
               (\<exists>txin \<in> set (vin (tx wtx)). findCoins (chain w) (prevout txin) = None)))"
proof (cases "mapWallet w txid")
  case None
  with assms show ?thesis by (auto simp: CreateRateBumpTransaction_def)
next
  case (Some wtx)
  show ?thesis
  proof (cases "rate_bump_prepare L w wtx coin_control (s0\<lparr>errors := []\<rparr>) require_mine")
    case (Inl stop)
    with assms Some have "stop = Returns (r, s)"
      by (simp add: CreateRateBumpTransaction_def)
    with Inl Some rate_bump_prepare_Inl show ?thesis by fastforce
  next
    case (Inr b)
    obtain rc cc1 s1 where b: "b = (rc, cc1, s1)" by (cases b)
    from Inr b have e: "errors s1 = []" and np: "\<not> IsParticlWallet w"
      using rate_bump_prepare_Inr [of L w wtx coin_control "s0\<lparr>errors := []\<rparr>" require_mine rc cc1 s1]
      by simp_all
    from assms Some Inr b e np show ?thesis
      by (auto simp: CreateRateBumpTransaction_def split: sum.splits)
  qed
qed

section \<open>The stages of the total bump\<close>

lemma change_scan_found:
  "nOutput \<noteq> -1 \<Longrightarrow>
   change_scan w outs i nOutput = (if filter (IsChange w) outs = [] then Some nOutput else None)"
  by (induction outs arbitrary: i) auto

lemma change_scan_start:
  "change_scan w outs i (-1) =
     (case filter (IsChange w) outs of
        [] \<Rightarrow> Some (-1)
      | [c] \<Rightarrow> Some (int (i + length (takeWhile (\<lambda>txout. \<not> IsChange w txout) outs)))
      | c # d # rest \<Rightarrow> None)"
proof (induction outs arbitrary: i)
  case Nil
  then show ?case by simp
next
  case (Cons a outs)
  show ?case
  proof (cases "IsChange w a")
    case True
    have "int i \<noteq> -1" by simp
    then have "change_scan w outs (Suc i) (int i) =
                 (if filter (IsChange w) outs = [] then Some (int i) else None)"
      by (rule change_scan_found)
    with True show ?thesis by (simp split: list.split)
  next
    case False
    with Cons.IH [of "Suc i"] show ?thesis by (simp split: list.split)
  qed
qed

lemma single_position:
  "length (filter P xs) = 1 \<Longrightarrow> n < length xs \<Longrightarrow> P (xs ! n) \<Longrightarrow>
   n = length (takeWhile (\<lambda>x. \<not> P x) xs)"
proof (induction xs arbitrary: n)
  case Nil
  then show ?case by simp
next
  case (Cons x xs)
  show ?case
  proof (cases "P x")
    case True
    with Cons.prems(1) have none: "filter P xs = []" by simp
    have "n = 0"
    proof (rule ccontr)
      assume "n \<noteq> 0"
      then obtain m where m: "n = Suc m" by (cases n) auto
      with Cons.prems have "m < length xs" "P (xs ! m)" by auto
      then have "xs ! m \<in> set (filter P xs)" by simp
      with none show False by simp
    qed
    with True show ?thesis by simp
  next
    case False
    with Cons.prems(3) have "n \<noteq> 0" by (cases n) auto
    then obtain m where m: "n = Suc m" by (cases n) auto
    with Cons.prems False have "length (filter P xs) = 1" "m < length xs" "P (xs ! m)"
      by auto
    then have "m = length (takeWhile (\<lambda>x. \<not> P x) xs)" by (rule Cons.IH)
    with False m show ?thesis by simp
  qed
qed

lemma single_removed:
  "length (filter P xs) = 1 \<Longrightarrow> n < length xs \<Longrightarrow> P (xs ! n) \<Longrightarrow>
   filter P (take n xs @ drop (Suc n) xs) = []"
proof -
  assume a: "length (filter P xs) = 1" "n < length xs" "P (xs ! n)"
  have "filter P xs = filter P (take n xs) @ filter P (xs ! n # drop (Suc n) xs)"
    using a(2) by (metis append_take_drop_id filter_append Cons_nth_drop_Suc)
  with a(3) have "length (filter P xs) = length (filter P (take n xs)) + 1 + length (filter P (drop (Suc n) xs))"
    by simp
  with a(1) show ?thesis by simp
qed

lemma change_scan_single:
  assumes "length (filter (IsChange w) outs) = 1" and "n < length outs" and "IsChange w (outs ! n)"
  shows "change_scan w outs 0 (-1) = Some (int n)"
proof -
  from assms(1) obtain c where "filter (IsChange w) outs = [c]"
    by (cases "filter (IsChange w) outs") auto
  moreover have "n = length (takeWhile (\<lambda>x. \<not> IsChange w x) outs)"
    using assms by (rule single_position)
  ultimately show ?thesis by (simp add: change_scan_start)
qed

lemma change_scan_none:
  "filter (IsChange w) outs = [] \<Longrightarrow> change_scan w outs 0 (-1) = Some (-1)"
  by (simp add: change_scan_start)

lemma change_scan_multiple:
  "1 < length (filter (IsChange w) outs) \<Longrightarrow> change_scan w outs 0 (-1) = None"
  by (cases "filter (IsChange w) outs" rule: list.exhaust; simp add: change_scan_start split: list.split)

lemma change_scan_Some:
  assumes "change_scan w outs 0 (-1) = Some k" and "k \<noteq> -1"
  shows "length (filter (IsChange w) outs) = 1"
  using assms by (auto simp: change_scan_start split: list.splits)

lemma shrink_change_errors:
  assumes "shrink_change L w wtx coin_control n s = Returns (r, s')" and "errors s = []"
  shows "r = OK \<longleftrightarrow> errors s' = []"
  using assms by (auto simp: shrink_change_def Let_def split: if_splits)

lemma total_bump_price_errors:
  assumes "total_bump_price L w wtx coin_control n s = Returns (r, s')" and "errors s = []"
  shows "r = OK \<longleftrightarrow> errors s' = []"
proof -
  obtain rate fee where f: "total_new_fee L w wtx coin_control (CalculateMaximumSignedTxSize w (tx wtx)) = (rate, fee)"
    by (cases "total_new_fee L w wtx coin_control (CalculateMaximumSignedTxSize w (tx wtx))")
  show ?thesis
  proof (cases "CalculateMaximumSignedTxSize w (tx wtx) < 0 \<or> fee > m_default_max_tx_fee w
                \<or> GetFeePerK rate < GetFeePerK (mempoolMinFee (chain w))")
    case True
    with assms f show ?thesis
      by (auto simp: total_bump_price_def Let_def split: if_splits)
  next
    case False
    with assms f have "shrink_change L w wtx coin_control n
        (s\<lparr>old_fee := total_old_fee L w wtx, new_fee := fee\<rparr>) = Returns (r, s')"
      by (simp add: total_bump_price_def Let_def)
    then show ?thesis using assms(2) shrink_change_errors by fastforce
  qed
qed

lemma CreateTotalBumpTransaction_errors:
  assumes "CreateTotalBumpTransaction L w txid coin_control s0 = Returns (r, s)"
    and "IsParticlWallet w"
  shows "r = OK \<longleftrightarrow> errors s = []"
proof (cases "mapWallet w txid")
  case None
  with assms show ?thesis by (auto simp: CreateTotalBumpTransaction_def)
next
  case (Some wtx)
  note found = Some
  obtain r1 errs where p: "PreconditionChecks L w wtx True [] = (r1, errs)"
    by (cases "PreconditionChecks L w wtx True []")
  note pe = PreconditionChecks_errors [OF p]
  show ?thesis
  proof (cases "r1 = OK")
    case False
    with assms found p pe show ?thesis by (auto simp: CreateTotalBumpTransaction_def)
  next
    case True
    note ok = True
    with pe have errs: "errs = []" by simp
    show ?thesis
    proof (cases "change_scan w (vpout (tx wtx)) 0 (-1)")
      case None
      with assms found p ok show ?thesis by (auto simp: CreateTotalBumpTransaction_def)
    next
      case (Some nOutput)
      note scan = Some
      show ?thesis
      proof (cases "nOutput = -1")
        case True
        with assms found p ok scan show ?thesis
          by (auto simp: CreateTotalBumpTransaction_def)
      next
        case False
        with assms found p ok scan errs
        have "total_bump_price L w wtx coin_control (nat nOutput) (s0\<lparr>new_fee := 0, errors := []\<rparr>)
                = Returns (r, s)"
          by (simp add: CreateTotalBumpTransaction_def)
        then show ?thesis using total_bump_price_errors by fastforce
      qed
    qed
  qed
qed

lemma total_bump_reaches_pricing:
  assumes "IsParticlWallet w" and "mapWallet w txid = Some wtx"
    and "fst (PreconditionChecks L w wtx True []) = OK"
    and "length (filter (IsChange w) (vpout (tx wtx))) = 1"
    and "n < length (vpout (tx wtx))" and "IsChange w (vpout (tx wtx) ! n)"
  shows "CreateTotalBumpTransaction L w txid coin_control st =
           total_bump_price L w wtx coin_control n (st\<lparr>new_fee := 0, errors := []\<rparr>)"
proof -
  obtain r errs where p: "PreconditionChecks L w wtx True [] = (r, errs)"
    by (cases "PreconditionChecks L w wtx True []")
  with assms(3) have r: "r = OK" by simp
  with PreconditionChecks_errors [OF p] have e: "errs = []" by simp
  have "change_scan w (vpout (tx wtx)) 0 (-1) = Some (int n)"
    using assms(4-6) by (rule change_scan_single)
  with assms(1,2) p r e show ?thesis
    by (simp add: CreateTotalBumpTransaction_def Let_def)
qed

lemma total_bump_OK_reached:
  assumes "CreateTotalBumpTransaction L w txid coin_control st = Returns (OK, s)"
    and "mapWallet w txid = Some wtx"
  shows "IsParticlWallet w \<and> fst (PreconditionChecks L w wtx True []) = OK \<and>
         length (filter (IsChange w) (vpout (tx wtx))) = 1"
proof -
  obtain r errs where p: "PreconditionChecks L w wtx True [] = (r, errs)"
    by (cases "PreconditionChecks L w wtx True []")
  from assms have pw: "IsParticlWallet w"
    by (auto simp: CreateTotalBumpTransaction_def Let_def split: if_splits)
  from assms p pw have r: "r = OK"
    by (auto simp: CreateTotalBumpTransaction_def Let_def split: if_splits)
  from assms p pw r obtain k where k: "change_scan w (vpout (tx wtx)) 0 (-1) = Some k" "k \<noteq> -1"
    by (auto simp: CreateTotalBumpTransaction_def Let_def split: if_splits option.splits)
  then have "length (filter (IsChange w) (vpout (tx wtx))) = 1" by (rule change_scan_Some)
  with pw p r show ?thesis by simp
qed

section \<open>Commit\<close>

lemma CommitTransaction_errors:
  assumes "CommitTransaction L D txid m c = (r, c')"
  shows "(r \<noteq> OK \<longrightarrow> c_errors c' \<noteq> []) \<and>
         (r = OK \<longrightarrow> c_errors c' = [] \<or>
            c_errors c' = [''Created new bumpfee transaction but could not mark the original transaction as replaced''])"
proof (cases "c_errors c = []")
  case False
  with assms show ?thesis by (auto simp: CommitTransaction_def)
next
  case True
  show ?thesis
  proof (cases "if txid = 0 then None else mapWallet (c_wallet c) txid")
    case None
    with assms True show ?thesis by (auto simp: CommitTransaction_def)
  next
    case (Some oldWtx)
    obtain r1 errs where p: "PreconditionChecks L (c_wallet c) oldWtx False [] = (r1, errs)"
      by (cases "PreconditionChecks L (c_wallet c) oldWtx False []")
    note pe = PreconditionChecks_errors [OF p]
    from assms True Some p pe show ?thesis
      by (auto simp: CommitTransaction_def Let_def split: if_splits prod.splits)
  qed
qed

section \<open>The builds of the concrete wallets\<close>

lemma ex_prepare:
  "rate_bump_prepare ex_lib ex_wallet ex_wtx ex_coin_control (ex_state\<lparr>errors := []\<rparr>) True
     = Inr ([ex_recipient], ex_new_coin_control, ex_state\<lparr>errors := [], old_fee := 100\<rparr>)"
  by (simp add: ex_defs ex_new_coin_control_def ex_recipient_def rate_bump_prepare_def
        PreconditionChecks_def AllInputsMine_def EstimateFeeRate_def Select_def
        IsExternalSelected_def select_all_inputs_def feerate_max_def feerate_less_def
        feerate_add_def CFeeRate_of_def)

lemma ex_rate_bump:
  "CreateRateBumpTransaction ex_lib ex_wallet 1 ex_coin_control ex_state True = Returns (OK, ex_rate_built)"
  by (simp add: CreateRateBumpTransaction_def ex_defs ex_rate_built_def rate_bump_prepare_def
        PreconditionChecks_def AllInputsMine_def EstimateFeeRate_def Select_def
        IsExternalSelected_def select_all_inputs_def feerate_max_def feerate_less_def
        feerate_add_def CFeeRate_of_def CMutableTransaction_of_def)

lemma ex_total_bump_dust:
  "CreateTotalBumpTransaction ex_lib (ex_pwallet [ex_payee, ex_change 600]) 2 ex_coin_control ex_state
     = Returns (OK, ex_particl_built)"
  by (simp add: CreateTotalBumpTransaction_def total_bump_price_def shrink_change_def
        total_new_fee_def total_old_fee_def PreconditionChecks_def AllInputsMine_def
        CMutableTransaction_of_def feerate_less_def CFeeRate_of_def
        ex_defs ex_particl_built_def)

lemma ex_total_bump_kept:
  "CreateTotalBumpTransaction ex_lib (ex_pwallet [ex_payee, ex_change 2000]) 2 ex_coin_control ex_state
     = Returns (OK, ex_particl_kept)"
  by (simp add: CreateTotalBumpTransaction_def total_bump_price_def shrink_change_def
        total_new_fee_def total_old_fee_def PreconditionChecks_def AllInputsMine_def
        CMutableTransaction_of_def feerate_less_def CFeeRate_of_def
        ex_defs ex_particl_kept_def)

lemma ex_commit_null:
  "CommitTransaction ex_lib ex_store 0 ex_built ex_commit_state =
     (MISC_ERROR, ex_commit_state\<lparr>c_errors := [''Invalid or non-wallet transaction id'']\<rparr>)"
  by (simp add: CommitTransaction_def ex_commit_state_def)

lemma ex_particl_preconditions:
  "IsParticlWallet (ex_pwallet outs) \<and>
   mapWallet (ex_pwallet outs) 2 = Some (ex_ptx outs) \<and>
   fst (PreconditionChecks ex_lib (ex_pwallet outs) (ex_ptx outs) True []) = OK"
  by (simp add: ex_defs PreconditionChecks_def AllInputsMine_def)

section \<open>The claims\<close>

text \<open>
  C1. When the rate bump reaches the call of the builder, the build is the builder's
  answer on the prepared recipients and coin control; every input of the original
  transaction is in the selected set of that coin control, and its minimum depth is 1.
\<close>

theorem rate_bump_forces_all_inputs:
  assumes "mapWallet w txid = Some wtx"
    and "rate_bump_prepare L w wtx coin_control (st\<lparr>errors := []\<rparr>) require_mine
           = Inr (recipients, new_coin_control, s1)"
  shows "CreateRateBumpTransaction L w txid coin_control st require_mine =
           (case CreateTransaction w recipients (-1) new_coin_control False of
              Inl err \<Rightarrow>
                Returns (WALLET_ERROR,
                         s1\<lparr>errors := errors s1 @ [''Unable to create transaction.'' @ '' '' @ err]\<rparr>)
            | Inr (built, fee) \<Rightarrow>
                Returns (OK, s1\<lparr>new_fee := fee, mtx := CMutableTransaction_of built\<rparr>))
         \<and> (\<forall>txin \<in> set (vin (tx wtx)). prevout txin \<in> setSelected new_coin_control)
         \<and> m_min_depth new_coin_control = 1"
proof -
  have "CreateRateBumpTransaction L w txid coin_control st require_mine =
           (case CreateTransaction w recipients (-1) new_coin_control False of
              Inl err \<Rightarrow>
                Returns (WALLET_ERROR,
                         s1\<lparr>errors := errors s1 @ [''Unable to create transaction.'' @ '' '' @ err]\<rparr>)
            | Inr (built, fee) \<Rightarrow>
                Returns (OK, s1\<lparr>new_fee := fee, mtx := CMutableTransaction_of built\<rparr>))"
    using assms by (simp add: CreateRateBumpTransaction_def Let_def)
  moreover have "\<forall>txin \<in> set (vin (tx wtx)). prevout txin \<in> setSelected new_coin_control"
    using rate_bump_prepare_Inr [OF assms(2)] by auto
  moreover have "m_min_depth new_coin_control = 1"
    using rate_bump_prepare_Inr [OF assms(2)] by simp
  ultimately show ?thesis by simp
qed

theorem rate_bump_forces_all_inputs_witness:
  "mapWallet ex_wallet 1 = Some ex_wtx \<and>
   rate_bump_prepare ex_lib ex_wallet ex_wtx ex_coin_control (ex_state\<lparr>errors := []\<rparr>) True
     = Inr ([ex_recipient], ex_new_coin_control, ex_state\<lparr>errors := [], old_fee := 100\<rparr>) \<and>
   CreateRateBumpTransaction ex_lib ex_wallet 1 ex_coin_control ex_state True =
     Returns (OK, \<lparr>errors = [], old_fee = 100, new_fee = 700,
                   mtx = \<lparr>m_vin = [ex_txin], m_vout = [ex_payee], m_vpout = []\<rparr>\<rparr>) \<and>
   ex_outpoint \<in> setSelected ex_new_coin_control \<and> m_min_depth ex_new_coin_control = 1"
proof -
  have a: "mapWallet ex_wallet 1 = Some ex_wtx" by (simp add: ex_wallet_def)
  show ?thesis
    using a ex_prepare rate_bump_forces_all_inputs [OF a ex_prepare]
    by (simp add: ex_defs ex_new_coin_control_def ex_recipient_def CMutableTransaction_of_def)
qed

text \<open>
  C2. \<open>CheckFeeRate\<close> returns \<open>WALLET_ERROR\<close> when the new rate is below the mempool
  minimum; otherwise \<open>INVALID_PARAMETER\<close> when the new total fee at the maximum size is
  below the old rate's fee plus the incremental rate's fee at that size, the incremental
  rate being the larger of the node's and the wallet's; otherwise \<open>INVALID_PARAMETER\<close>
  when it is below the required fee; otherwise \<open>WALLET_ERROR\<close> when it exceeds the
  maximum transaction fee; otherwise \<open>OK\<close>.
\<close>

theorem CheckFeeRate_result:
  "fst (CheckFeeRate L w wtx new_rate max_vsize paid errs) =
    (if GetFeePerK new_rate < GetFeePerK (mempoolMinFee (chain w)) then WALLET_ERROR
     else if GetFee L new_rate max_vsize
               < GetFee L (CFeeRate_paid L paid (GetVirtualTransactionSize L (tx wtx))) max_vsize
                 + GetFee L (feerate_max (relayIncrementalFee (chain w))
                                         (CFeeRate_of (WALLET_INCREMENTAL_RELAY_FEE L))) max_vsize
     then INVALID_PARAMETER
     else if GetFee L new_rate max_vsize < GetRequiredFee w max_vsize then INVALID_PARAMETER
     else if GetFee L new_rate max_vsize > m_default_max_tx_fee w then WALLET_ERROR
     else OK)
   \<and> GetFeePerK (feerate_max (relayIncrementalFee (chain w))
                             (CFeeRate_of (WALLET_INCREMENTAL_RELAY_FEE L)))
       = max (GetFeePerK (relayIncrementalFee (chain w))) (WALLET_INCREMENTAL_RELAY_FEE L)"
  by (simp add: CheckFeeRate_def Let_def feerate_max_PerK CFeeRate_of_def)

theorem CheckFeeRate_result_witness:
  "fst (CheckFeeRate ex_lib ex_wallet ex_wtx (CFeeRate_of 999) 230 100 []) = WALLET_ERROR \<and>
   fst (CheckFeeRate ex_lib ex_wallet ex_wtx (CFeeRate_of 1443) 230 100 []) = INVALID_PARAMETER \<and>
   fst (CheckFeeRate ex_lib (ex_wallet\<lparr>GetRequiredFee := (\<lambda>size. 1000)\<rparr>) ex_wtx
          (CFeeRate_of 1444) 230 100 []) = INVALID_PARAMETER \<and>
   fst (CheckFeeRate ex_lib (ex_wallet\<lparr>m_default_max_tx_fee := 300\<rparr>) ex_wtx
          (CFeeRate_of 1444) 230 100 []) = WALLET_ERROR \<and>
   fst (CheckFeeRate ex_lib ex_wallet ex_wtx (CFeeRate_of 1444) 230 100 []) = OK"
  using CheckFeeRate_result [where L = ex_lib and w = ex_wallet and wtx = ex_wtx
          and new_rate = "CFeeRate_of 999" and max_vsize = 230 and paid = 100 and errs = "[]"]
        CheckFeeRate_result [where L = ex_lib and w = ex_wallet and wtx = ex_wtx
          and new_rate = "CFeeRate_of 1443" and max_vsize = 230 and paid = 100 and errs = "[]"]
        CheckFeeRate_result [where L = ex_lib
          and w = "ex_wallet\<lparr>GetRequiredFee := (\<lambda>size. 1000)\<rparr>" and wtx = ex_wtx
          and new_rate = "CFeeRate_of 1444" and max_vsize = 230 and paid = 100 and errs = "[]"]
        CheckFeeRate_result [where L = ex_lib
          and w = "ex_wallet\<lparr>m_default_max_tx_fee := 300\<rparr>" and wtx = ex_wtx
          and new_rate = "CFeeRate_of 1444" and max_vsize = 230 and paid = 100 and errs = "[]"]
        CheckFeeRate_result [where L = ex_lib and w = ex_wallet and wtx = ex_wtx
          and new_rate = "CFeeRate_of 1444" and max_vsize = 230 and paid = 100 and errs = "[]"]
  by (simp add: ex_defs CFeeRate_of_def feerate_max_def feerate_less_def)

text \<open>
  C3. The estimated fee rate is the maximum of the old rate plus one unit plus the larger
  incremental relay rate, and the wallet's minimum fee rate; so it is never below the
  former.
\<close>

theorem EstimateFeeRate_result:
  "GetFeePerK (EstimateFeeRate L w wtx paid coin_control) =
     max (GetFeePerK (CFeeRate_paid L paid (GetVirtualTransactionSize L (tx wtx))) + 1
            + max (GetFeePerK (relayIncrementalFee (chain w))) (WALLET_INCREMENTAL_RELAY_FEE L))
         (GetFeePerK (GetMinimumFeeRate w coin_control))
   \<and> GetFeePerK (CFeeRate_paid L paid (GetVirtualTransactionSize L (tx wtx))) + 1
       + max (GetFeePerK (relayIncrementalFee (chain w))) (WALLET_INCREMENTAL_RELAY_FEE L)
     \<le> GetFeePerK (EstimateFeeRate L w wtx paid coin_control)"
  by (simp add: EstimateFeeRate_def Let_def feerate_max_PerK feerate_add_def CFeeRate_of_def)

theorem EstimateFeeRate_result_witness:
  "GetFeePerK (EstimateFeeRate ex_lib ex_wallet ex_wtx 100 ex_coin_control) = 1445 \<and>
   GetFeePerK (EstimateFeeRate ex_lib (ex_wallet\<lparr>GetMinimumFeeRate := (\<lambda>cc. CFeeRate_of 20000)\<rparr>)
                 ex_wtx 100 ex_coin_control) = 20000"
  using EstimateFeeRate_result [where L = ex_lib and w = ex_wallet and wtx = ex_wtx
          and paid = 100 and coin_control = ex_coin_control]
        EstimateFeeRate_result [where L = ex_lib
          and w = "ex_wallet\<lparr>GetMinimumFeeRate := (\<lambda>cc. CFeeRate_of 20000)\<rparr>" and wtx = ex_wtx
          and paid = 100 and coin_control = ex_coin_control]
  by (simp add: ex_defs CFeeRate_of_def)

text \<open>
  C4, in the form the code satisfies. \<open>PreconditionChecks\<close> returns \<open>INVALID_PARAMETER\<close>
  when the transaction has a descendant in the wallet or in the mempool; otherwise
  \<open>WALLET_ERROR\<close> when its depth is not 0, when it does not signal replaceability, or
  when its metadata has a \<open>replaced_by_txid\<close> entry; otherwise, when ownership is
  required, \<open>WALLET_ERROR\<close> unless every input is owned under the filter, which is
  watch-only when the wallet has a legacy key manager and private keys are disabled, and
  spendable otherwise; otherwise \<open>OK\<close>.
\<close>

theorem PreconditionChecks_result:
  "fst (PreconditionChecks L w wtx require_mine errs) =
    (if HasWalletSpend w (tx wtx) \<or> hasDescendantsInMempool (chain w) (GetHash (tx wtx))
     then INVALID_PARAMETER
     else if GetTxDepthInMainChain w wtx \<noteq> 0 \<or> \<not> SignalsOptInRBF L (tx wtx)
             \<or> mapValue wtx ''replaced_by_txid'' \<noteq> None
     then WALLET_ERROR
     else if require_mine \<and>
             \<not> (\<forall>txin \<in> set (vin (tx wtx)).
                  InputIsMine w txin
                    (if GetLegacyScriptPubKeyMan w \<and> WALLET_FLAG_DISABLE_PRIVATE_KEYS w
                     then ISMINE_WATCH_ONLY else ISMINE_SPENDABLE))
     then WALLET_ERROR
     else OK)"
  by (simp add: PreconditionChecks_def AllInputsMine_def list_all_iff Let_def split: option.split)

theorem PreconditionChecks_result_witness:
  "fst (PreconditionChecks ex_lib ex_watch_wallet ex_wtx True []) = OK \<and>
   fst (PreconditionChecks ex_lib ex_wallet (ex_wtx\<lparr>mapValue := [''replaced_by_txid'' \<mapsto> ''ab'']\<rparr>) True [])
     = WALLET_ERROR"
  using PreconditionChecks_result [of ex_lib ex_watch_wallet ex_wtx True "[]"]
        PreconditionChecks_result [of ex_lib ex_wallet "ex_wtx\<lparr>mapValue := [''replaced_by_txid'' \<mapsto> ''ab'']\<rparr>" True "[]"]
  by (simp add: ex_defs ex_watch_wallet_def)

text \<open>
  C4 with "watch-only when private keys are disabled" fails: with private keys disabled
  but no legacy key manager, a transaction whose only input is watch-only, and which
  meets every other condition, is rejected.
\<close>

theorem PreconditionChecks_watch_only_counterexample:
  "WALLET_FLAG_DISABLE_PRIVATE_KEYS ex_descriptor_watch_wallet \<and>
   vin (tx ex_wtx) = [ex_txin] \<and>
   InputIsMine ex_descriptor_watch_wallet ex_txin ISMINE_WATCH_ONLY \<and>
   \<not> HasWalletSpend ex_descriptor_watch_wallet (tx ex_wtx) \<and>
   \<not> hasDescendantsInMempool (chain ex_descriptor_watch_wallet) (GetHash (tx ex_wtx)) \<and>
   GetTxDepthInMainChain ex_descriptor_watch_wallet ex_wtx = 0 \<and>
   SignalsOptInRBF ex_lib (tx ex_wtx) \<and>
   mapValue ex_wtx ''replaced_by_txid'' = None \<and>
   PreconditionChecks ex_lib ex_descriptor_watch_wallet ex_wtx True [] =
     (WALLET_ERROR, [''Transaction contains inputs that don't belong to this wallet''])"
  by (simp add: ex_defs ex_watch_wallet_def ex_descriptor_watch_wallet_def
        PreconditionChecks_def AllInputsMine_def)

text \<open>
  C5, in the form the code satisfies. The rate bump returns \<open>OK\<close> exactly when its
  diagnostics are empty; so does the total bump of a Particl wallet; a commit that does
  not return \<open>OK\<close> has a diagnostic, and a commit that returns \<open>OK\<close> has none or the
  one warning that the original could not be marked as replaced.
\<close>

theorem result_OK_iff_no_diagnostics:
  "(CreateRateBumpTransaction L w txid coin_control st require_mine = Returns (r, s) \<longrightarrow>
      (r = OK \<longleftrightarrow> errors s = []))
   \<and> (IsParticlWallet w \<and> CreateTotalBumpTransaction L w txid coin_control st = Returns (r, s) \<longrightarrow>
      (r = OK \<longleftrightarrow> errors s = []))
   \<and> (CommitTransaction L D txid m c = (r, c') \<longrightarrow>
      (r \<noteq> OK \<longrightarrow> c_errors c' \<noteq> []) \<and>
      (r = OK \<longrightarrow> c_errors c' = [] \<or>
         c_errors c' = [''Created new bumpfee transaction but could not mark the original transaction as replaced'']))"
  using CreateRateBumpTransaction_Returns [of L w txid coin_control st require_mine r s]
        CreateTotalBumpTransaction_errors [of L w txid coin_control st r s]
        CommitTransaction_errors [of L D txid m c r c']
  by blast

theorem result_OK_iff_no_diagnostics_witness:
  "CreateRateBumpTransaction ex_lib ex_wallet 1 ex_coin_control ex_state True = Returns (OK, ex_rate_built) \<and>
   errors ex_rate_built = [] \<and>
   IsParticlWallet (ex_pwallet [ex_payee, ex_change 600]) \<and>
   CreateTotalBumpTransaction ex_lib (ex_pwallet [ex_payee, ex_change 600]) 2 ex_coin_control ex_state
     = Returns (OK, ex_particl_built) \<and>
   errors ex_particl_built = [] \<and>
   CommitTransaction ex_lib ex_store 0 ex_built ex_commit_state =
     (MISC_ERROR, ex_commit_state\<lparr>c_errors := [''Invalid or non-wallet transaction id'']\<rparr>) \<and>
   c_errors (ex_commit_state\<lparr>c_errors := [''Invalid or non-wallet transaction id'']\<rparr>) \<noteq> []"
proof -
  have p: "IsParticlWallet (ex_pwallet [ex_payee, ex_change 600])"
    by (simp add: ex_pwallet_def)
  have a: "errors ex_rate_built = []"
    using result_OK_iff_no_diagnostics [where L = ex_lib and w = ex_wallet and txid = 1
          and coin_control = ex_coin_control and st = ex_state and require_mine = True
          and r = OK and s = ex_rate_built] ex_rate_bump
    by blast
  have b: "errors ex_particl_built = []"
    using result_OK_iff_no_diagnostics [where L = ex_lib and w = "ex_pwallet [ex_payee, ex_change 600]"
          and txid = 2 and coin_control = ex_coin_control and st = ex_state
          and r = OK and s = ex_particl_built] ex_total_bump_dust p
    by blast
  have c: "c_errors (ex_commit_state\<lparr>c_errors := [''Invalid or non-wallet transaction id'']\<rparr>) \<noteq> []"
    using result_OK_iff_no_diagnostics [where L = ex_lib and D = ex_store and txid = 0
          and m = ex_built and c = ex_commit_state and r = MISC_ERROR
          and c' = "ex_commit_state\<lparr>c_errors := [''Invalid or non-wallet transaction id'']\<rparr>"]
          ex_commit_null
    by blast
  show ?thesis
    using a b c p ex_rate_bump ex_total_bump_dust ex_commit_null by blast
qed

text \<open>
  C5 as an equivalence for all three operations fails: a commit whose marking of the
  original fails returns \<open>OK\<close> with a diagnostic, and the total bump of a wallet that is
  not a Particl wallet returns \<open>WALLET_ERROR\<close> without one.
\<close>

theorem result_OK_with_diagnostic_counterexample:
  "CommitTransaction ex_lib ex_failing_store 1 ex_built ex_commit_state =
     (OK, \<lparr>c_errors = [''Created new bumpfee transaction but could not mark the original transaction as replaced''],
           bumped_txid = 99,
           c_wallet = ex_wallet\<lparr>mapWallet := [1 \<mapsto> ex_wtx, 99 \<mapsto>
              \<lparr>tx = \<lparr>vin = [ex_txin], vout = [ex_payee], vpout = [], GetHash = 99\<rparr>,
               mapValue = [''replaces_txid'' \<mapsto> ''txid''], vOrderForm = []\<rparr>]\<rparr>\<rparr>) \<and>
   CreateTotalBumpTransaction ex_lib ex_wallet 1 ex_coin_control ex_state =
     Returns (WALLET_ERROR, ex_state\<lparr>new_fee := 0, errors := []\<rparr>)"
  by (simp add: CommitTransaction_def PreconditionChecks_def ex_defs ex_store_def
        ex_failing_store_def ex_commit_state_def ex_built_def CreateTotalBumpTransaction_def)

text \<open>
  C6. After a successful total bump, with \<open>delta\<close> the new fee minus the old fee and the
  change output at position \<open>n\<close>: when the change value minus \<open>delta\<close> is at most the dust
  threshold of the shrunk output, that output is gone from the replacement (no change
  output is left) and the new fee is the old fee plus \<open>delta\<close> plus the discarded value;
  otherwise the output stays, its value lowered by \<open>delta\<close>, and the new fee is the old
  fee plus \<open>delta\<close>.
\<close>

theorem total_bump_dust_folding:
  fixes L w wtx coin_control n
  defines "vp \<equiv> vpout (tx wtx)"
    and "fee \<equiv> snd (total_new_fee L w wtx coin_control (CalculateMaximumSignedTxSize w (tx wtx)))"
    and "delta \<equiv> snd (total_new_fee L w wtx coin_control (CalculateMaximumSignedTxSize w (tx wtx)))
                    - total_old_fee L w wtx"
    and "shrunk \<equiv> (vpout (tx wtx) ! n)
                     \<lparr>nValue := nValue (vpout (tx wtx) ! n)
                        - (snd (total_new_fee L w wtx coin_control
                                  (CalculateMaximumSignedTxSize w (tx wtx)))
                           - total_old_fee L w wtx)\<rparr>"
  assumes "CreateTotalBumpTransaction L w txid coin_control st = Returns (OK, s)"
    and "mapWallet w txid = Some wtx"
    and "n < length vp" and "IsChange w (vp ! n)"
  shows "old_fee s = total_old_fee L w wtx \<and>
         (if nValue shrunk \<le> GetDustThreshold L shrunk (GetDiscardRate w)
          then m_vpout (mtx s) = take n vp @ drop (Suc n) vp \<and>
               filter (IsChange w) (m_vpout (mtx s)) = [] \<and>
               new_fee s = total_old_fee L w wtx + delta + nValue shrunk
          else m_vpout (mtx s) = vp[n := shrunk] \<and>
               nValue (m_vpout (mtx s) ! n) = nValue (vp ! n) - delta \<and>
               new_fee s = fee \<and> new_fee s = total_old_fee L w wtx + delta)"
proof -
  note reached = total_bump_OK_reached [OF assms(5,6)]
  have one: "length (filter (IsChange w) (vpout (tx wtx))) = 1" using reached by simp
  have n: "n < length (vpout (tx wtx))" "IsChange w (vpout (tx wtx) ! n)"
    using assms(7,8) by (simp_all add: vp_def)
  have price: "total_bump_price L w wtx coin_control n (st\<lparr>new_fee := 0, errors := []\<rparr>)
                 = Returns (OK, s)"
    using total_bump_reaches_pricing [of w txid wtx L n coin_control st] reached assms(5,6) n
    by simp
  obtain rate f where nf: "total_new_fee L w wtx coin_control (CalculateMaximumSignedTxSize w (tx wtx)) = (rate, f)"
    by (cases "total_new_fee L w wtx coin_control (CalculateMaximumSignedTxSize w (tx wtx))")
  from price nf have shrink:
    "shrink_change L w wtx coin_control n
       (st\<lparr>new_fee := 0, errors := [], old_fee := total_old_fee L w wtx, new_fee := f\<rparr>)
     = Returns (OK, s)"
    by (auto simp: total_bump_price_def Let_def split: if_splits)
  have removed: "filter (IsChange w) (take n (vpout (tx wtx)) @ drop (Suc n) (vpout (tx wtx))) = []"
    using one n by (rule single_removed)
  from shrink nf n removed show ?thesis
    unfolding vp_def fee_def delta_def shrunk_def
    by (auto simp: shrink_change_def Let_def CMutableTransaction_of_def split: if_splits)
qed

theorem total_bump_dust_folding_witness:
  "CreateTotalBumpTransaction ex_lib (ex_pwallet [ex_payee, ex_change 600]) 2 ex_coin_control ex_state
     = Returns (OK, ex_particl_built) \<and>
   mapWallet (ex_pwallet [ex_payee, ex_change 600]) 2 = Some (ex_ptx [ex_payee, ex_change 600]) \<and>
   (1::nat) < length (vpout (tx (ex_ptx [ex_payee, ex_change 600]))) \<and>
   IsChange (ex_pwallet [ex_payee, ex_change 600]) (vpout (tx (ex_ptx [ex_payee, ex_change 600])) ! 1) \<and>
   m_vpout (mtx ex_particl_built) = [ex_payee] \<and> new_fee ex_particl_built = 100 + 226 + 374 \<and>
   CreateTotalBumpTransaction ex_lib (ex_pwallet [ex_payee, ex_change 2000]) 2 ex_coin_control ex_state
     = Returns (OK, ex_particl_kept) \<and>
   mapWallet (ex_pwallet [ex_payee, ex_change 2000]) 2 = Some (ex_ptx [ex_payee, ex_change 2000]) \<and>
   (1::nat) < length (vpout (tx (ex_ptx [ex_payee, ex_change 2000]))) \<and>
   IsChange (ex_pwallet [ex_payee, ex_change 2000]) (vpout (tx (ex_ptx [ex_payee, ex_change 2000])) ! 1) \<and>
   m_vpout (mtx ex_particl_kept) = [ex_payee, ex_change (2000 - 226)] \<and>
   new_fee ex_particl_kept = 100 + 226"
proof -
  have m1: "mapWallet (ex_pwallet [ex_payee, ex_change 600]) 2 = Some (ex_ptx [ex_payee, ex_change 600])"
    by (simp add: ex_pwallet_def)
  have n1: "(1::nat) < length (vpout (tx (ex_ptx [ex_payee, ex_change 600])))"
    by (simp add: ex_ptx_def)
  have c1: "IsChange (ex_pwallet [ex_payee, ex_change 600]) (vpout (tx (ex_ptx [ex_payee, ex_change 600])) ! 1)"
    by (simp add: ex_pwallet_def ex_wallet_def ex_ptx_def ex_change_def)
  have m2: "mapWallet (ex_pwallet [ex_payee, ex_change 2000]) 2 = Some (ex_ptx [ex_payee, ex_change 2000])"
    by (simp add: ex_pwallet_def)
  have n2: "(1::nat) < length (vpout (tx (ex_ptx [ex_payee, ex_change 2000])))"
    by (simp add: ex_ptx_def)
  have c2: "IsChange (ex_pwallet [ex_payee, ex_change 2000]) (vpout (tx (ex_ptx [ex_payee, ex_change 2000])) ! 1)"
    by (simp add: ex_pwallet_def ex_wallet_def ex_ptx_def ex_change_def)
  have d: "m_vpout (mtx ex_particl_built) = [ex_payee] \<and> new_fee ex_particl_built = 100 + 226 + 374"
    using total_bump_dust_folding [OF ex_total_bump_dust m1 n1 c1]
    by (simp add: ex_particl_built_def)
  have k: "m_vpout (mtx ex_particl_kept) = [ex_payee, ex_change (2000 - 226)] \<and>
           new_fee ex_particl_kept = 100 + 226"
    using total_bump_dust_folding [OF ex_total_bump_kept m2 n2 c2]
    by (simp add: ex_particl_kept_def)
  show ?thesis
    using ex_total_bump_dust ex_total_bump_kept m1 n1 c1 m2 n2 c2 d k by blast
qed

text \<open>
  C7, in the form the code satisfies. For a total bump that passes the precondition
  checks: without a change output, and with more than one, the build returns
  \<open>WALLET_ERROR\<close> and leaves \<open>mtx\<close> as it was; with exactly one change output, a
  signed size that is not negative and a positive \<open>delta\<close>, the new fee minus the old
  fee, a change value below \<open>delta\<close> makes the build return \<open>WALLET_ERROR\<close>, and the
  diagnostic is that the change output is too small when moreover the new fee is within
  the fee ceiling and the new rate is not below the mempool minimum.
\<close>

theorem total_bump_change_output_errors:
  fixes L w wtx coin_control n
  defines "vp \<equiv> vpout (tx wtx)"
    and "vsize \<equiv> CalculateMaximumSignedTxSize w (tx wtx)"
    and "rate \<equiv> fst (total_new_fee L w wtx coin_control (CalculateMaximumSignedTxSize w (tx wtx)))"
    and "fee \<equiv> snd (total_new_fee L w wtx coin_control (CalculateMaximumSignedTxSize w (tx wtx)))"
    and "delta \<equiv> snd (total_new_fee L w wtx coin_control (CalculateMaximumSignedTxSize w (tx wtx)))
                    - total_old_fee L w wtx"
  assumes "IsParticlWallet w" and "mapWallet w txid = Some wtx"
    and "fst (PreconditionChecks L w wtx True []) = OK"
  shows "(filter (IsChange w) vp = [] \<longrightarrow>
            CreateTotalBumpTransaction L w txid coin_control st =
              Returns (WALLET_ERROR,
                       st\<lparr>new_fee := 0, errors := [''Transaction does not have a change output'']\<rparr>))
       \<and> (1 < length (filter (IsChange w) vp) \<longrightarrow>
            CreateTotalBumpTransaction L w txid coin_control st =
              Returns (WALLET_ERROR,
                       st\<lparr>new_fee := 0, errors := [''Transaction has multiple change outputs'']\<rparr>))
       \<and> (length (filter (IsChange w) vp) = 1 \<and> n < length vp \<and> IsChange w (vp ! n) \<and>
          0 \<le> vsize \<and> 0 < delta \<and> nValue (vp ! n) < delta \<longrightarrow>
            (\<exists>s. CreateTotalBumpTransaction L w txid coin_control st = Returns (WALLET_ERROR, s)) \<and>
            (fee \<le> m_default_max_tx_fee w \<and>
             \<not> GetFeePerK rate < GetFeePerK (mempoolMinFee (chain w)) \<longrightarrow>
               CreateTotalBumpTransaction L w txid coin_control st =
                 Returns (WALLET_ERROR,
                          \<lparr>errors = [''Change output is too small to bump the fee''],
                           old_fee = total_old_fee L w wtx, new_fee = fee,
                           mtx = CMutableTransaction_of (tx wtx)\<rparr>)))"
proof (intro conjI impI)
  obtain r errs where p: "PreconditionChecks L w wtx True [] = (r, errs)"
    by (cases "PreconditionChecks L w wtx True []")
  with assms(8) have r: "r = OK" by simp
  with PreconditionChecks_errors [OF p] have e: "errs = []" by simp
  {
    assume "filter (IsChange w) vp = []"
    then have "change_scan w (vpout (tx wtx)) 0 (-1) = Some (-1)"
      unfolding vp_def by (rule change_scan_none)
    with assms(6,7) p r e
    show "CreateTotalBumpTransaction L w txid coin_control st =
              Returns (WALLET_ERROR,
                       st\<lparr>new_fee := 0, errors := [''Transaction does not have a change output'']\<rparr>)"
      by (simp add: CreateTotalBumpTransaction_def Let_def)
  }
  {
    assume "1 < length (filter (IsChange w) vp)"
    then have "change_scan w (vpout (tx wtx)) 0 (-1) = None"
      unfolding vp_def by (rule change_scan_multiple)
    with assms(6,7) p r e
    show "CreateTotalBumpTransaction L w txid coin_control st =
              Returns (WALLET_ERROR,
                       st\<lparr>new_fee := 0, errors := [''Transaction has multiple change outputs'']\<rparr>)"
      by (simp add: CreateTotalBumpTransaction_def Let_def)
  }
  {
    assume a: "length (filter (IsChange w) vp) = 1 \<and> n < length vp \<and> IsChange w (vp ! n) \<and>
          0 \<le> vsize \<and> 0 < delta \<and> nValue (vp ! n) < delta"
    then have price: "CreateTotalBumpTransaction L w txid coin_control st =
           total_bump_price L w wtx coin_control n (st\<lparr>new_fee := 0, errors := []\<rparr>)"
      using total_bump_reaches_pricing [of w txid wtx L n coin_control st] assms(6-8)
      by (simp add: vp_def)
    obtain rt f where nf: "total_new_fee L w wtx coin_control (CalculateMaximumSignedTxSize w (tx wtx)) = (rt, f)"
      by (cases "total_new_fee L w wtx coin_control (CalculateMaximumSignedTxSize w (tx wtx))")
    from a nf show "\<exists>s. CreateTotalBumpTransaction L w txid coin_control st = Returns (WALLET_ERROR, s)"
      unfolding price vp_def vsize_def delta_def
      by (simp add: total_bump_price_def shrink_change_def Let_def CMutableTransaction_of_def)
    {
      assume b: "fee \<le> m_default_max_tx_fee w \<and>
             \<not> GetFeePerK rate < GetFeePerK (mempoolMinFee (chain w))"
      with a nf show "CreateTotalBumpTransaction L w txid coin_control st =
                 Returns (WALLET_ERROR,
                          \<lparr>errors = [''Change output is too small to bump the fee''],
                           old_fee = total_old_fee L w wtx, new_fee = fee,
                           mtx = CMutableTransaction_of (tx wtx)\<rparr>)"
        unfolding price vp_def vsize_def delta_def fee_def rate_def
        by (simp add: total_bump_price_def shrink_change_def Let_def CMutableTransaction_of_def)
    }
  }
qed

theorem total_bump_change_output_errors_witness:
  "IsParticlWallet (ex_pwallet [ex_payee]) \<and>
   mapWallet (ex_pwallet [ex_payee]) 2 = Some (ex_ptx [ex_payee]) \<and>
   fst (PreconditionChecks ex_lib (ex_pwallet [ex_payee]) (ex_ptx [ex_payee]) True []) = OK \<and>
   filter (IsChange (ex_pwallet [ex_payee])) (vpout (tx (ex_ptx [ex_payee]))) = [] \<and>
   CreateTotalBumpTransaction ex_lib (ex_pwallet [ex_payee]) 2 ex_coin_control ex_state =
     Returns (WALLET_ERROR,
              ex_state\<lparr>new_fee := 0, errors := [''Transaction does not have a change output'']\<rparr>) \<and>
   filter (IsChange (ex_pwallet [ex_change 600, ex_change 700]))
     (vpout (tx (ex_ptx [ex_change 600, ex_change 700]))) = [ex_change 600, ex_change 700] \<and>
   CreateTotalBumpTransaction ex_lib (ex_pwallet [ex_change 600, ex_change 700]) 2 ex_coin_control ex_state =
     Returns (WALLET_ERROR,
              ex_state\<lparr>new_fee := 0, errors := [''Transaction has multiple change outputs'']\<rparr>) \<and>
   filter (IsChange (ex_pwallet [ex_payee, ex_change 100]))
     (vpout (tx (ex_ptx [ex_payee, ex_change 100]))) = [ex_change 100] \<and>
   nValue (vpout (tx (ex_ptx [ex_payee, ex_change 100])) ! 1) = 100 \<and>
   snd (total_new_fee ex_lib (ex_pwallet [ex_payee, ex_change 100]) (ex_ptx [ex_payee, ex_change 100])
          ex_coin_control 225)
     - total_old_fee ex_lib (ex_pwallet [ex_payee, ex_change 100]) (ex_ptx [ex_payee, ex_change 100]) = 226 \<and>
   CreateTotalBumpTransaction ex_lib (ex_pwallet [ex_payee, ex_change 100]) 2 ex_coin_control ex_state =
     Returns (WALLET_ERROR,
              \<lparr>errors = [''Change output is too small to bump the fee''],
               old_fee = 100, new_fee = 326,
               mtx = \<lparr>m_vin = [ex_txin], m_vout = [], m_vpout = [ex_payee, ex_change 100]\<rparr>\<rparr>)"
proof -
  note p0 = ex_particl_preconditions [of "[ex_payee]"]
  note p2 = ex_particl_preconditions [of "[ex_change 600, ex_change 700]"]
  note p1 = ex_particl_preconditions [of "[ex_payee, ex_change 100]"]
  have f0: "filter (IsChange (ex_pwallet [ex_payee])) (vpout (tx (ex_ptx [ex_payee]))) = []"
    by (simp add: ex_defs)
  have f2: "filter (IsChange (ex_pwallet [ex_change 600, ex_change 700]))
              (vpout (tx (ex_ptx [ex_change 600, ex_change 700]))) = [ex_change 600, ex_change 700]"
    by (simp add: ex_defs)
  have f1: "filter (IsChange (ex_pwallet [ex_payee, ex_change 100]))
              (vpout (tx (ex_ptx [ex_payee, ex_change 100]))) = [ex_change 100]"
    by (simp add: ex_defs)
  have v: "nValue (vpout (tx (ex_ptx [ex_payee, ex_change 100])) ! 1) = 100"
    by (simp add: ex_defs)
  have c: "IsChange (ex_pwallet [ex_payee, ex_change 100]) (vpout (tx (ex_ptx [ex_payee, ex_change 100])) ! 1)"
    by (simp add: ex_defs)
  have sz: "CalculateMaximumSignedTxSize (ex_pwallet [ex_payee, ex_change 100])
              (tx (ex_ptx [ex_payee, ex_change 100])) = 225"
    by (simp add: ex_defs)
  have nf: "total_new_fee ex_lib (ex_pwallet [ex_payee, ex_change 100]) (ex_ptx [ex_payee, ex_change 100])
              ex_coin_control 225 = (CFeeRate_of 1445, 326)"
    by (simp add: ex_defs total_new_fee_def total_old_fee_def feerate_less_def CFeeRate_of_def)
  have old: "total_old_fee ex_lib (ex_pwallet [ex_payee, ex_change 100]) (ex_ptx [ex_payee, ex_change 100]) = 100"
    by (simp add: ex_defs total_old_fee_def)
  have mx: "m_default_max_tx_fee (ex_pwallet [ex_payee, ex_change 100]) = 10000000"
    by (simp add: ex_defs)
  have mp: "GetFeePerK (mempoolMinFee (chain (ex_pwallet [ex_payee, ex_change 100]))) = 1000"
    by (simp add: ex_defs CFeeRate_of_def)
  have cp: "CMutableTransaction_of (tx (ex_ptx [ex_payee, ex_change 100])) =
              \<lparr>m_vin = [ex_txin], m_vout = [], m_vpout = [ex_payee, ex_change 100]\<rparr>"
    by (simp add: ex_ptx_def CMutableTransaction_of_def)
  have r0: "CreateTotalBumpTransaction ex_lib (ex_pwallet [ex_payee]) 2 ex_coin_control ex_state =
     Returns (WALLET_ERROR,
              ex_state\<lparr>new_fee := 0, errors := [''Transaction does not have a change output'']\<rparr>)"
    using total_bump_change_output_errors [where L = ex_lib and w = "ex_pwallet [ex_payee]"
        and txid = 2 and wtx = "ex_ptx [ex_payee]" and coin_control = ex_coin_control
        and st = ex_state] p0 f0
    by simp
  have r2: "CreateTotalBumpTransaction ex_lib (ex_pwallet [ex_change 600, ex_change 700]) 2 ex_coin_control ex_state =
     Returns (WALLET_ERROR,
              ex_state\<lparr>new_fee := 0, errors := [''Transaction has multiple change outputs'']\<rparr>)"
    using total_bump_change_output_errors [where L = ex_lib
        and w = "ex_pwallet [ex_change 600, ex_change 700]"
        and txid = 2 and wtx = "ex_ptx [ex_change 600, ex_change 700]"
        and coin_control = ex_coin_control and st = ex_state] p2 f2
    by simp
  have r1: "CreateTotalBumpTransaction ex_lib (ex_pwallet [ex_payee, ex_change 100]) 2 ex_coin_control ex_state =
     Returns (WALLET_ERROR,
              \<lparr>errors = [''Change output is too small to bump the fee''],
               old_fee = 100, new_fee = 326,
               mtx = \<lparr>m_vin = [ex_txin], m_vout = [], m_vpout = [ex_payee, ex_change 100]\<rparr>\<rparr>)"
    using total_bump_change_output_errors [where L = ex_lib
        and w = "ex_pwallet [ex_payee, ex_change 100]"
        and txid = 2 and wtx = "ex_ptx [ex_payee, ex_change 100]"
        and coin_control = ex_coin_control and st = ex_state and n = 1] p1 f1 v c
    by (simp add: sz nf old mx mp cp CFeeRate_of_def) (simp add: ex_ptx_def)
  show ?thesis
    using p0 f0 r0 f2 r2 f1 v r1 by (simp add: nf old)
qed

text \<open>
  C7 for every transaction with one change output below \<open>delta\<close> fails: above the fee
  ceiling and below the mempool minimum the build returns \<open>WALLET_ERROR\<close> with the
  diagnostic of that check, not that the change output is too small; and when the inputs
  cannot be signed it returns \<open>INVALID_ADDRESS_OR_KEY\<close> before any fee is computed.
\<close>

theorem total_bump_too_small_counterexample:
  "IsParticlWallet ex_ceiling_wallet \<and>
   mapWallet ex_ceiling_wallet 2 = Some (ex_ptx [ex_payee, ex_change 100]) \<and>
   fst (PreconditionChecks ex_lib ex_ceiling_wallet (ex_ptx [ex_payee, ex_change 100]) True []) = OK \<and>
   filter (IsChange ex_ceiling_wallet) (vpout (tx (ex_ptx [ex_payee, ex_change 100]))) = [ex_change 100] \<and>
   nValue (ex_change 100) = 100 \<and>
   snd (total_new_fee ex_lib ex_ceiling_wallet (ex_ptx [ex_payee, ex_change 100]) ex_coin_control
          (CalculateMaximumSignedTxSize ex_ceiling_wallet (tx (ex_ptx [ex_payee, ex_change 100]))))
     - total_old_fee ex_lib ex_ceiling_wallet (ex_ptx [ex_payee, ex_change 100]) = 226 \<and>
   CreateTotalBumpTransaction ex_lib ex_ceiling_wallet 2 ex_coin_control ex_state =
     Returns (WALLET_ERROR,
              \<lparr>errors = [''Specified or calculated fee amount is too high (cannot be higher than maxTxFee amount)''],
               old_fee = 100, new_fee = 326, mtx = mtx ex_state\<rparr>) \<and>
   IsParticlWallet ex_floor_wallet \<and>
   mapWallet ex_floor_wallet 2 = Some (ex_ptx [ex_payee, ex_change 100]) \<and>
   fst (PreconditionChecks ex_lib ex_floor_wallet (ex_ptx [ex_payee, ex_change 100]) True []) = OK \<and>
   filter (IsChange ex_floor_wallet) (vpout (tx (ex_ptx [ex_payee, ex_change 100]))) = [ex_change 100] \<and>
   snd (total_new_fee ex_lib ex_floor_wallet (ex_ptx [ex_payee, ex_change 100]) ex_coin_control
          (CalculateMaximumSignedTxSize ex_floor_wallet (tx (ex_ptx [ex_payee, ex_change 100]))))
     - total_old_fee ex_lib ex_floor_wallet (ex_ptx [ex_payee, ex_change 100]) = 226 \<and>
   CreateTotalBumpTransaction ex_lib ex_floor_wallet 2 ex_coin_control ex_state =
     Returns (WALLET_ERROR,
              \<lparr>errors = [''New fee rate (amount) is lower than the minimum fee rate (amount) to get into the mempool -- the totalFee value should be at least amount or the settxfee value should be at least amount to add transaction''],
               old_fee = 100, new_fee = 326, mtx = mtx ex_state\<rparr>) \<and>
   IsParticlWallet ex_unsignable_wallet \<and>
   mapWallet ex_unsignable_wallet 2 = Some (ex_ptx [ex_payee, ex_change 100]) \<and>
   fst (PreconditionChecks ex_lib ex_unsignable_wallet (ex_ptx [ex_payee, ex_change 100]) True []) = OK \<and>
   filter (IsChange ex_unsignable_wallet) (vpout (tx (ex_ptx [ex_payee, ex_change 100]))) = [ex_change 100] \<and>
   CreateTotalBumpTransaction ex_lib ex_unsignable_wallet 2 ex_coin_control ex_state =
     Returns (INVALID_ADDRESS_OR_KEY,
              ex_state\<lparr>new_fee := 0,
                         errors := [''Transaction contains inputs that cannot be signed'']\<rparr>)"
  by (simp add: ex_defs ex_ceiling_wallet_def ex_floor_wallet_def ex_unsignable_wallet_def
        CreateTotalBumpTransaction_def total_bump_price_def total_new_fee_def total_old_fee_def
        PreconditionChecks_def AllInputsMine_def feerate_less_def CFeeRate_of_def)

text \<open>
  C8, in the form the code satisfies. For a transaction found in the wallet (in Particl
  mode: of a Particl wallet), \<open>TransactionCanBeBumped\<close> holds exactly when the
  transaction is unconfirmed, signals replaceability, has no \<open>replaced_by_txid\<close> entry,
  has no descendant in the wallet or in the mempool, and all its inputs are owned by the
  wallet.
\<close>

theorem TransactionCanBeBumped_iff:
  assumes "mapWallet w txid = Some wtx" and "fParticlMode L \<longrightarrow> IsParticlWallet w"
  shows "TransactionCanBeBumped L w txid \<longleftrightarrow>
           GetTxDepthInMainChain w wtx = 0 \<and> SignalsOptInRBF L (tx wtx) \<and>
           mapValue wtx ''replaced_by_txid'' = None \<and>
           \<not> HasWalletSpend w (tx wtx) \<and>
           \<not> hasDescendantsInMempool (chain w) (GetHash (tx wtx)) \<and>
           (\<forall>txin \<in> set (vin (tx wtx)).
              InputIsMine w txin
                (if GetLegacyScriptPubKeyMan w \<and> WALLET_FLAG_DISABLE_PRIVATE_KEYS w
                 then ISMINE_WATCH_ONLY else ISMINE_SPENDABLE))"
proof -
  have "TransactionCanBeBumped L w txid \<longleftrightarrow> fst (PreconditionChecks L w wtx True []) = OK"
    using assms by (simp add: TransactionCanBeBumped_def)
  then show ?thesis
    by (simp add: PreconditionChecks_fst)
qed

theorem TransactionCanBeBumped_iff_witness:
  "mapWallet ex_wallet 1 = Some ex_wtx \<and> \<not> fParticlMode ex_lib \<and>
   TransactionCanBeBumped ex_lib ex_wallet 1 \<and>
   mapWallet (ex_pwallet [ex_payee, ex_change 600]) 2 = Some (ex_ptx [ex_payee, ex_change 600]) \<and>
   fParticlMode ex_particl_lib \<and> IsParticlWallet (ex_pwallet [ex_payee, ex_change 600]) \<and>
   TransactionCanBeBumped ex_particl_lib (ex_pwallet [ex_payee, ex_change 600]) 2"
  using TransactionCanBeBumped_iff [where L = ex_lib and w = ex_wallet and txid = 1 and wtx = ex_wtx]
        TransactionCanBeBumped_iff [where L = ex_particl_lib
          and w = "ex_pwallet [ex_payee, ex_change 600]" and txid = 2
          and wtx = "ex_ptx [ex_payee, ex_change 600]"]
  by (simp add: ex_defs)

text \<open>
  C8 without the ownership of the inputs fails: a transaction that meets the four
  conditions and has an input the wallet does not own cannot be bumped.
\<close>

theorem TransactionCanBeBumped_foreign_input_counterexample:
  "mapWallet ex_foreign_wallet 1 = Some ex_wtx \<and>
   GetTxDepthInMainChain ex_foreign_wallet ex_wtx = 0 \<and>
   SignalsOptInRBF ex_lib (tx ex_wtx) \<and>
   mapValue ex_wtx ''replaced_by_txid'' = None \<and>
   \<not> HasWalletSpend ex_foreign_wallet (tx ex_wtx) \<and>
   \<not> hasDescendantsInMempool (chain ex_foreign_wallet) (GetHash (tx ex_wtx)) \<and>
   \<not> TransactionCanBeBumped ex_lib ex_foreign_wallet 1"
  by (simp add: ex_defs ex_foreign_wallet_def TransactionCanBeBumped_def PreconditionChecks_def
        AllInputsMine_def)

text \<open>
  C9, in the form the code satisfies. In the rate bump the lookup of the previous outputs
  comes before the precondition checks: when an input's coin is missing the build
  returns \<open>MISC_ERROR\<close> naming the first missing outpoint, whatever the preconditions;
  the result of a failing precondition check is returned when every coin was found; and
  \<open>MISC_ERROR\<close> is returned only when a coin is missing.
\<close>

theorem rate_bump_lookup_precedes_preconditions:
  assumes "mapWallet w txid = Some wtx"
  shows "(find (\<lambda>txin. findCoins (chain w) (prevout txin) = None) (vin (tx wtx)) = Some missing \<longrightarrow>
            CreateRateBumpTransaction L w txid coin_control st require_mine =
              Returns (MISC_ERROR,
                       st\<lparr>errors := [ToString L (op_hash (prevout missing)) @ '':'' @
                                      FormatUInt L (op_n (prevout missing)) @
                                      '' is already spent'']\<rparr>))
       \<and> ((\<forall>txin \<in> set (vin (tx wtx)). findCoins (chain w) (prevout txin) \<noteq> None) \<and>
            fst (PreconditionChecks L w wtx require_mine []) \<noteq> OK \<longrightarrow>
            CreateRateBumpTransaction L w txid coin_control st require_mine =
              Returns (fst (PreconditionChecks L w wtx require_mine []),
                       st\<lparr>errors := snd (PreconditionChecks L w wtx require_mine [])\<rparr>))
       \<and> ((\<exists>s. CreateRateBumpTransaction L w txid coin_control st require_mine = Returns (MISC_ERROR, s))
            \<longrightarrow> (\<exists>txin \<in> set (vin (tx wtx)). findCoins (chain w) (prevout txin) = None))"
proof (intro conjI impI)
  assume "find (\<lambda>txin. findCoins (chain w) (prevout txin) = None) (vin (tx wtx)) = Some missing"
  then have "harvest_inputs L w (vin (tx wtx)) (coin_control, 0, []) =
      Inl (ToString L (op_hash (prevout missing)) @ '':'' @ FormatUInt L (op_n (prevout missing)) @
           '' is already spent'')"
    by (rule harvest_inputs_missing)
  with assms show "CreateRateBumpTransaction L w txid coin_control st require_mine =
              Returns (MISC_ERROR,
                       st\<lparr>errors := [ToString L (op_hash (prevout missing)) @ '':'' @
                                      FormatUInt L (op_n (prevout missing)) @
                                      '' is already spent'']\<rparr>)"
    by (simp add: CreateRateBumpTransaction_def rate_bump_prepare_def)
next
  assume a: "(\<forall>txin \<in> set (vin (tx wtx)). findCoins (chain w) (prevout txin) \<noteq> None) \<and>
            fst (PreconditionChecks L w wtx require_mine []) \<noteq> OK"
  then have "rate_bump_prepare L w wtx coin_control (st\<lparr>errors := []\<rparr>) require_mine =
           Inl (Returns (fst (PreconditionChecks L w wtx require_mine []),
                         st\<lparr>errors := snd (PreconditionChecks L w wtx require_mine [])\<rparr>))"
    using rate_bump_prepare_precondition [of wtx w L require_mine "st\<lparr>errors := []\<rparr>" coin_control]
    by simp
  with assms show "CreateRateBumpTransaction L w txid coin_control st require_mine =
              Returns (fst (PreconditionChecks L w wtx require_mine []),
                       st\<lparr>errors := snd (PreconditionChecks L w wtx require_mine [])\<rparr>)"
    by (simp add: CreateRateBumpTransaction_def)
next
  assume "\<exists>s. CreateRateBumpTransaction L w txid coin_control st require_mine = Returns (MISC_ERROR, s)"
  then obtain s where "CreateRateBumpTransaction L w txid coin_control st require_mine = Returns (MISC_ERROR, s)"
    by blast
  from CreateRateBumpTransaction_Returns [OF this] assms
  show "\<exists>txin \<in> set (vin (tx wtx)). findCoins (chain w) (prevout txin) = None"
    by auto
qed

theorem rate_bump_lookup_precedes_preconditions_witness:
  "mapWallet ex_spent_wallet 1 = Some ex_wtx \<and>
   find (\<lambda>txin. findCoins (chain ex_spent_wallet) (prevout txin) = None) (vin (tx ex_wtx)) = Some ex_txin \<and>
   CreateRateBumpTransaction ex_lib ex_spent_wallet 1 ex_coin_control ex_state True =
     Returns (MISC_ERROR, ex_state\<lparr>errors := [''txid:n is already spent'']\<rparr>) \<and>
   mapWallet ex_replaced_wallet 1 = Some ex_replaced_wtx \<and>
   findCoins (chain ex_replaced_wallet) (prevout ex_txin) = Some ex_coin \<and>
   CreateRateBumpTransaction ex_lib ex_replaced_wallet 1 ex_coin_control ex_state True =
     Returns (WALLET_ERROR,
       ex_state\<lparr>errors := [''Cannot bump transaction txid which was already bumped by transaction ab'']\<rparr>)"
proof -
  have a: "mapWallet ex_spent_wallet 1 = Some ex_wtx"
    by (simp add: ex_spent_wallet_def ex_wallet_def)
  have b: "mapWallet ex_replaced_wallet 1 = Some ex_replaced_wtx"
    by (simp add: ex_replaced_wallet_def)
  show ?thesis
    using a b
      rate_bump_lookup_precedes_preconditions [OF a, where L = ex_lib and missing = ex_txin
        and coin_control = ex_coin_control and st = ex_state and require_mine = True]
      rate_bump_lookup_precedes_preconditions [OF b, where L = ex_lib
        and coin_control = ex_coin_control and st = ex_state and require_mine = True]
    by (simp add: ex_defs ex_spent_wallet_def ex_replaced_wallet_def ex_replaced_wtx_def
          PreconditionChecks_def)
qed

text \<open>
  C9 with the precondition checks first fails: a transaction with a descendant in the
  wallet and a missing coin gets \<open>MISC_ERROR\<close>, not the \<open>INVALID_PARAMETER\<close> of the
  precondition checker.
\<close>

theorem rate_bump_missing_coin_wins_counterexample:
  "mapWallet ex_spent_wallet 1 = Some ex_wtx \<and>
   PreconditionChecks ex_lib ex_spent_wallet ex_wtx True [] =
     (INVALID_PARAMETER, [''Transaction has descendants in the wallet'']) \<and>
   vin (tx ex_wtx) = [ex_txin] \<and>
   findCoins (chain ex_spent_wallet) (prevout ex_txin) = None \<and>
   CreateRateBumpTransaction ex_lib ex_spent_wallet 1 ex_coin_control ex_state True =
     Returns (MISC_ERROR, ex_state\<lparr>errors := [''txid:n is already spent'']\<rparr>)"
  by (simp add: ex_defs ex_spent_wallet_def PreconditionChecks_def
        CreateRateBumpTransaction_def rate_bump_prepare_def)

text \<open>
  C10. For a Particl wallet, a rate bump whose transaction is found, whose coins are all
  found and which passes the precondition checks ends in the failing assertion, and no
  rate bump returns \<open>OK\<close>; for a wallet that is not a Particl wallet the total bump
  returns \<open>WALLET_ERROR\<close>.
\<close>

theorem rate_bump_asserts_for_particl_wallet:
  "(IsParticlWallet w \<and> mapWallet w txid = Some wtx \<and>
    (\<forall>txin \<in> set (vin (tx wtx)). findCoins (chain w) (prevout txin) \<noteq> None) \<and>
    fst (PreconditionChecks L w wtx require_mine []) = OK \<longrightarrow>
      CreateRateBumpTransaction L w txid coin_control st require_mine = AssertionFailure)
   \<and> (IsParticlWallet w \<longrightarrow>
        (\<forall>s. CreateRateBumpTransaction L w txid coin_control st require_mine \<noteq> Returns (OK, s)))
   \<and> (\<not> IsParticlWallet w \<longrightarrow>
        CreateTotalBumpTransaction L w txid coin_control st =
          Returns (WALLET_ERROR, st\<lparr>new_fee := 0, errors := []\<rparr>))"
proof (intro conjI impI allI)
  assume a: "IsParticlWallet w \<and> mapWallet w txid = Some wtx \<and>
    (\<forall>txin \<in> set (vin (tx wtx)). findCoins (chain w) (prevout txin) \<noteq> None) \<and>
    fst (PreconditionChecks L w wtx require_mine []) = OK"
  then have "rate_bump_prepare L w wtx coin_control (st\<lparr>errors := []\<rparr>) require_mine = Inl AssertionFailure"
    using rate_bump_prepare_particl [of wtx w L require_mine "st\<lparr>errors := []\<rparr>" coin_control]
    by simp
  with a show "CreateRateBumpTransaction L w txid coin_control st require_mine = AssertionFailure"
    by (simp add: CreateRateBumpTransaction_def)
next
  fix s
  assume "IsParticlWallet w"
  then show "CreateRateBumpTransaction L w txid coin_control st require_mine \<noteq> Returns (OK, s)"
    using CreateRateBumpTransaction_Returns [of L w txid coin_control st require_mine OK s]
    by blast
next
  assume "\<not> IsParticlWallet w"
  then show "CreateTotalBumpTransaction L w txid coin_control st =
          Returns (WALLET_ERROR, st\<lparr>new_fee := 0, errors := []\<rparr>)"
    by (simp add: CreateTotalBumpTransaction_def)
qed

theorem rate_bump_asserts_for_particl_wallet_witness:
  "IsParticlWallet (ex_pwallet [ex_payee, ex_change 600]) \<and>
   mapWallet (ex_pwallet [ex_payee, ex_change 600]) 2 = Some (ex_ptx [ex_payee, ex_change 600]) \<and>
   vin (tx (ex_ptx [ex_payee, ex_change 600])) = [ex_txin] \<and>
   findCoins (chain (ex_pwallet [ex_payee, ex_change 600])) (prevout ex_txin) = Some ex_coin \<and>
   fst (PreconditionChecks ex_lib (ex_pwallet [ex_payee, ex_change 600])
          (ex_ptx [ex_payee, ex_change 600]) True []) = OK \<and>
   CreateRateBumpTransaction ex_lib (ex_pwallet [ex_payee, ex_change 600]) 2 ex_coin_control ex_state True
     = AssertionFailure \<and>
   \<not> IsParticlWallet ex_wallet \<and>
   CreateTotalBumpTransaction ex_lib ex_wallet 1 ex_coin_control ex_state =
     Returns (WALLET_ERROR, \<lparr>errors = [], old_fee = 0, new_fee = 0,
                             mtx = \<lparr>m_vin = [], m_vout = [], m_vpout = []\<rparr>\<rparr>)"
  using rate_bump_asserts_for_particl_wallet [where L = ex_lib
          and w = "ex_pwallet [ex_payee, ex_change 600]" and txid = 2
          and wtx = "ex_ptx [ex_payee, ex_change 600]" and require_mine = True
          and coin_control = ex_coin_control and st = ex_state]
        rate_bump_asserts_for_particl_wallet [where L = ex_lib and w = ex_wallet and txid = 1
          and coin_control = ex_coin_control and st = ex_state]
  by (simp add: ex_defs PreconditionChecks_def AllInputsMine_def)

end
